theory Spec2Isabelle
  imports Complex_Main
begin

section \<open>Python values, exceptions and awaitables\<close>

text \<open>
  The values that travel through the command layer: JSON-like Python objects. A Python
  dictionary literal such as \<^verbatim>\<open>{'error': 'Password required'}\<close> is a \<open>PDict\<close> with
  one item.
\<close>

datatype pyval =
    PNone
  | PBool bool
  | PInt int
  | PStr string
  | PList "pyval list"
  | PDict "(string \<times> pyval) list"

text \<open>
  Every \<^verbatim>\<open>raise\<close> of the source is a value of \<open>exn\<close>; a computation that may raise
  returns \<open>exn + 'a\<close> with \<open>Inl\<close> the raised exception. \<open>ExternalError\<close> stands for
  the exceptions of the collaborators that are not part of these files (storage, wallet,
  network, the base64 and JSON-RPC libraries).
\<close>

datatype exn =
    Exception string
  | KeyError string
  | AttributeError string
  | TypeError string
  | AuthenticationError string
  | DaemonNotRunning
  | ExternalError string

text \<open>
  All command bodies are \<^verbatim>\<open>async def\<close>: calling one returns a coroutine, and the body
  runs only when the coroutine is awaited. A plain object (a dict, say) cannot be
  awaited: Python raises \<^verbatim>\<open>TypeError\<close>.
\<close>

datatype pyobj =
    Plain pyval
  | Coroutine "exn + pyval"

definition not_awaitable :: string where
  "not_awaitable = ''object can't be used in 'await' expression''"

fun await :: "exn + pyobj \<Rightarrow> exn + pyval" where
  "await (Inl e) = Inl e"
| "await (Inr (Coroutine r)) = r"
| "await (Inr (Plain v)) = Inl (TypeError not_awaitable)"

definition kwargs_get :: "(string \<rightharpoonup> pyval) \<Rightarrow> string \<Rightarrow> pyval" where
  \<comment> \<open>\<^verbatim>\<open>kwargs.get(key)\<close>: \<^verbatim>\<open>None\<close> when the key is absent.\<close>
  "kwargs_get kwargs k = (case kwargs k of None \<Rightarrow> PNone | Some v \<Rightarrow> v)"


section \<open>Wallet storage and wallets (collaborators of the core)\<close>

text \<open>
  What \<^verbatim>\<open>load_wallet\<close> reads of a \<^verbatim>\<open>WalletStorage\<close>: each field is the result of the
  method of the same name.
\<close>

record wallet_storage =
  path :: string
  file_exists :: bool
  is_encrypted :: bool
  requires_split :: bool
  requires_upgrade :: bool
  get_action :: bool

text \<open>
  A wallet as the daemon sees it: its storage, the answer of \<^verbatim>\<open>has_password()\<close>, and
  whether \<^verbatim>\<open>start_network\<close> has completed on it.
\<close>

record abstract_wallet =
  storage :: wallet_storage
  has_password :: bool
  network_started :: bool

record simple_config =
  config_get :: "string \<Rightarrow> pyval"
  get_wallet_path :: string

text \<open>
  The functions of the repository and of its libraries that these two files call but do
  not define. Each is a parameter of the model; the ones that can raise return a sum.
  \<open>b64decode_utf8\<close> is \<^verbatim>\<open>to_string(b64decode(to_bytes(encoded, 'utf8')), 'utf8')\<close>.
\<close>

record ext =
  standardize_path :: "string \<Rightarrow> string"
  WalletStorage :: "string \<Rightarrow> wallet_storage"
  decrypt :: "wallet_storage \<Rightarrow> string \<Rightarrow> exn + wallet_storage"
  Wallet_raises :: "wallet_storage \<Rightarrow> exn option"
  wallet_has_password :: "wallet_storage \<Rightarrow> bool"
  start_network_raises :: "abstract_wallet \<Rightarrow> exn option"
  stop_threads_raises :: "abstract_wallet \<Rightarrow> exn option"
  SimpleConfig :: "(string \<rightharpoonup> pyval) \<Rightarrow> simple_config"
  json_decode :: "pyval \<Rightarrow> pyval"
  b64decode_utf8 :: "string \<Rightarrow> exn + string"

definition Wallet :: "ext \<Rightarrow> wallet_storage \<Rightarrow> exn + abstract_wallet" where
  \<comment> \<open>Modelled from the spec: \<^verbatim>\<open>wallet.py\<close> is not in these files. \<^verbatim>\<open>Wallet(storage)\<close>
      either raises or gives the wallet handle of the opened store, whose
      network-registration state is still unset.\<close>
  "Wallet x st =
     (case Wallet_raises x st of
        Some e \<Rightarrow> Inl e
      | None \<Rightarrow> Inr \<lparr>storage = st, has_password = wallet_has_password x st,
                      network_started = False\<rparr>)"

definition start_network :: "ext \<Rightarrow> abstract_wallet \<Rightarrow> exn + abstract_wallet" where
  \<comment> \<open>Modelled from the spec: \<^verbatim>\<open>wallet.start_network(network)\<close> either raises or
      registers the session for network synchronization.\<close>
  "start_network x w =
     (case start_network_raises x w of
        Some e \<Rightarrow> Inl e
      | None \<Rightarrow> Inr (w\<lparr>network_started := True\<rparr>))"


section \<open>commands.py: the registry and the precondition wrapper\<close>

record commands =
  cmd_config :: simple_config
  cmd_wallet :: "abstract_wallet option"

text \<open>
  A decorated function: the attributes \<^verbatim>\<open>Command.__init__\<close> inspects, and the body.
  \<open>func_body\<close> is what awaiting the coroutine of the body gives.
\<close>

record pyfunc =
  func_name :: string
  func_doc :: "string option"
  co_varnames :: "string list"
  co_argcount :: nat
  func_defaults :: "pyval list option"
  func_body :: "commands \<Rightarrow> pyval list \<Rightarrow> (string \<rightharpoonup> pyval) \<Rightarrow> exn + pyval"

record command =
  name :: string
  requires_network :: bool
  requires_wallet :: bool
  requires_password :: bool
  description :: "string option"
  help_text :: "string option"
  params :: "string list"
  options :: "string list"
  defaults :: "pyval list"

text \<open>
  \<^verbatim>\<open>Command.__init__\<close>. The field \<open>help_text\<close> is the attribute \<^verbatim>\<open>help\<close>; the slices
  \<^verbatim>\<open>varnames[:-n]\<close> and \<^verbatim>\<open>varnames[-n:]\<close> clamp at the start of the list, as \<open>take\<close>
  and \<open>drop\<close> with the truncated difference do.
\<close>

definition Command :: "pyfunc \<Rightarrow> string \<Rightarrow> command" where
  "Command func s =
     (let varnames = drop 1 (take (co_argcount func) (co_varnames func));
          ds = (case func_defaults func of None \<Rightarrow> [] | Some l \<Rightarrow> l);
          n = length ds
      in \<lparr>name = func_name func,
          requires_network = (CHR ''n'' \<in> set s),
          requires_wallet = (CHR ''w'' \<in> set s),
          requires_password = (CHR ''p'' \<in> set s),
          description = func_doc func,
          help_text = (case func_doc func of
                         None \<Rightarrow> None
                       | Some doc \<Rightarrow> if doc = [] then None
                                     else Some (takeWhile (\<lambda>c. c \<noteq> CHR ''.'') doc)),
          params = (if ds \<noteq> [] then take (length varnames - n) varnames else varnames),
          options = (if ds \<noteq> [] then drop (length varnames - n) varnames else []),
          defaults = ds\<rparr>)"

text \<open>
  The decorator \<^verbatim>\<open>command(s)(func)\<close> stores the descriptor in the global dictionary
  \<^verbatim>\<open>known_commands\<close> by plain item assignment and returns \<open>func_wrapper\<close>. The
  dictionary is threaded explicitly; the wrapper reads it when it is called.
\<close>

definition command :: "string \<Rightarrow> pyfunc \<Rightarrow> (string \<rightharpoonup> command) \<Rightarrow> (string \<rightharpoonup> command)" where
  "command s func known_commands = known_commands(func_name func \<mapsto> Command func s)"

definition wallet_not_loaded :: string where
  "wallet_not_loaded = ''wallet not loaded. Use 'electrum daemon load_wallet'' @ [CHR 0x27]"

definition password_required :: pyval where
  "password_required = PDict [(''error'', PStr ''Password required'')]"

definition func_wrapper ::
  "(string \<rightharpoonup> command) \<Rightarrow> pyfunc \<Rightarrow> commands \<Rightarrow> pyval list \<Rightarrow> (string \<rightharpoonup> pyval)
     \<Rightarrow> exn + pyobj" where
  "func_wrapper known_commands func self args kwargs =
     (case known_commands (func_name func) of
        None \<Rightarrow> Inl (KeyError (func_name func))
      | Some c \<Rightarrow>
          let wallet = cmd_wallet self;
              password = kwargs_get kwargs ''password''
          in if requires_wallet c \<and> wallet = None then Inl (Exception wallet_not_loaded)
             else if requires_password c \<and> password = PNone then
               (case wallet of
                  None \<Rightarrow> Inl (AttributeError ''has_password'')
                | Some w \<Rightarrow>
                    if has_password w then Inr (Plain password_required)
                    else Inr (Coroutine (func_body func self args kwargs)))
             else Inr (Coroutine (func_body func self args kwargs)))"


section \<open>daemon.py: the daemon state\<close>

text \<open>
  The effects whose order matters are recorded, in program order, in \<open>trace\<close>:
  \<open>Inserted p\<close> is \<^verbatim>\<open>self.wallets[p] = wallet\<close>, \<open>Removed p\<close> is a
  \<^verbatim>\<open>self.wallets.pop(p, None)\<close> that found an entry, \<open>StartNetwork p\<close> and
  \<open>StopThreads p\<close> are the completed calls \<^verbatim>\<open>wallet.start_network(self.network)\<close> and
  \<^verbatim>\<open>wallet.stop_threads()\<close> on the wallet of path \<open>p\<close>, \<open>Sleep t\<close> is
  \<^verbatim>\<open>time.sleep(t)\<close> and \<open>Dispatch r\<close> is the call of
  \<^verbatim>\<open>jsonrpcserver.async_dispatch\<close> on the request text \<open>r\<close>.
\<close>

datatype event =
    StartNetwork string
  | Inserted string
  | Removed string
  | StopThreads string
  | Sleep rat
  | Dispatch string

record daemon =
  rpc_user :: string
  rpc_password :: string
  has_network :: bool
  wallets :: "string \<rightharpoonup> abstract_wallet"
  current_wallet :: "abstract_wallet option"
  trace :: "event list"

text \<open>
  \<open>has_network\<close> is \<^verbatim>\<open>self.network is not None\<close>; \<open>current_wallet\<close> is the attribute
  \<^verbatim>\<open>self.wallet\<close> that \<^verbatim>\<open>load_wallet\<close> sets.
\<close>


subsection \<open>Session manager\<close>

text \<open>
  \<^verbatim>\<open>load_wallet\<close> returns \<^verbatim>\<open>None\<close> at each bare \<^verbatim>\<open>return\<close>. The password is falsy when
  it is \<^verbatim>\<open>None\<close> or empty. In the encrypted branch the inner \<open>case\<close> gives
  \<open>Inr None\<close> for the early return, \<open>Inl e\<close> when \<^verbatim>\<open>storage.decrypt(password)\<close> raises
  \<open>e\<close> (the call has no handler) and otherwise the decrypted store, on which the three
  refusals are then tested.
\<close>

definition load_wallet ::
  "ext \<Rightarrow> daemon \<Rightarrow> string \<Rightarrow> string option \<Rightarrow> (exn + abstract_wallet option) \<times> daemon" where
  "load_wallet x d path0 password =
     (let p = standardize_path x path0 in
      case wallets d p of
        Some wallet \<Rightarrow> (Inr (Some wallet), d)
      | None \<Rightarrow>
          let st = WalletStorage x p in
          if \<not> file_exists st then (Inr None, d)
          else
            (case (if is_encrypted st
                   then (case password of
                           None \<Rightarrow> Inr None
                         | Some pw \<Rightarrow> if pw = [] then Inr None
                                      else map_sum id Some (decrypt x st pw))
                   else Inr (Some st)) of
               Inl e \<Rightarrow> (Inl e, d)
             | Inr None \<Rightarrow> (Inr None, d)
             | Inr (Some st') \<Rightarrow>
                 if requires_split st' then (Inr None, d)
                 else if requires_upgrade st' then (Inr None, d)
                 else if get_action st' then (Inr None, d)
                 else
                   (case Wallet x st' of
                      Inl e \<Rightarrow> (Inl e, d)
                    | Inr w \<Rightarrow>
                        (case start_network x w of
                           Inl e \<Rightarrow> (Inl e, d)
                         | Inr wallet \<Rightarrow>
                             (Inr (Some wallet),
                              d\<lparr>wallets := (wallets d)(p \<mapsto> wallet),
                                current_wallet := Some wallet,
                                trace := trace d @ [StartNetwork p, Inserted p]\<rparr>)))))"

definition add_wallet :: "ext \<Rightarrow> daemon \<Rightarrow> abstract_wallet \<Rightarrow> daemon" where
  "add_wallet x d wallet =
     (let p = standardize_path x (path (storage wallet)) in
      d\<lparr>wallets := (wallets d)(p \<mapsto> wallet), trace := trace d @ [Inserted p]\<rparr>)"

definition get_wallet :: "ext \<Rightarrow> daemon \<Rightarrow> string \<Rightarrow> abstract_wallet option" where
  "get_wallet x d path0 = wallets d (standardize_path x path0)"

text \<open>
  \<^verbatim>\<open>stop_wallet\<close> pops the entry first and calls \<^verbatim>\<open>stop_threads\<close> on the popped wallet
  afterwards. A wallet object is truthy, so \<^verbatim>\<open>not wallet\<close> holds exactly when the pop
  returned the default \<^verbatim>\<open>None\<close>.
\<close>

definition stop_wallet :: "ext \<Rightarrow> daemon \<Rightarrow> string \<Rightarrow> (exn + bool) \<times> daemon" where
  "stop_wallet x d path0 =
     (let p = standardize_path x path0 in
      case wallets d p of
        None \<Rightarrow> (Inr False, d)
      | Some wallet \<Rightarrow>
          let d1 = d\<lparr>wallets := (wallets d)(p := None), trace := trace d @ [Removed p]\<rparr> in
          (case stop_threads_raises x wallet of
             Some e \<Rightarrow> (Inl e, d1)
           | None \<Rightarrow> (Inr True, d1\<lparr>trace := trace d1 @ [StopThreads p]\<rparr>)))"


subsection \<open>RPC credentials and authentication\<close>

text \<open>
  \<^verbatim>\<open>get_rpc_credentials\<close>: \<open>fresh\<close> is the base64 text of the 128 random bits drawn when
  the configuration has no credential pair. The configuration keys are strings here.
\<close>

definition get_rpc_credentials ::
  "string \<Rightarrow> (string \<rightharpoonup> string) \<Rightarrow> (string \<times> string) \<times> (string \<rightharpoonup> string)" where
  "get_rpc_credentials fresh config =
     (case config ''rpcuser'' of
        None \<Rightarrow> ((''user'', fresh), config(''rpcuser'' \<mapsto> ''user'', ''rpcpassword'' \<mapsto> fresh))
      | Some u \<Rightarrow>
          (case config ''rpcpassword'' of
             None \<Rightarrow> ((''user'', fresh), config(''rpcuser'' \<mapsto> ''user'', ''rpcpassword'' \<mapsto> fresh))
           | Some pw \<Rightarrow> ((u, pw), config)))"

definition str_partition :: "string \<Rightarrow> char \<Rightarrow> string \<times> string \<times> string" where
  \<comment> \<open>\<^verbatim>\<open>str.partition(sep)\<close> for a one-character separator.\<close>
  "str_partition s sep =
     (if sep \<in> set s
      then (takeWhile (\<lambda>c. c \<noteq> sep) s, [sep], drop 1 (dropWhile (\<lambda>c. c \<noteq> sep) s))
      else (s, [], []))"

definition constant_time_compare :: "string \<Rightarrow> string \<Rightarrow> bool" where
  \<comment> \<open>Modelled from the spec: \<^verbatim>\<open>util.constant_time_compare\<close> is not in these files; the
      spec describes it as constant-time equality of the two strings.\<close>
  "constant_time_compare a b = (a = b)"

definition authenticate :: "ext \<Rightarrow> daemon \<Rightarrow> (string \<rightharpoonup> string) \<Rightarrow> (exn + unit) \<times> daemon" where
  "authenticate x d headers =
     (if rpc_password d = [] then (Inr (), d)
      else
        (case headers ''Authorization'' of
           None \<Rightarrow> (Inl (AuthenticationError ''CredentialsMissing''), d)
         | Some auth_string \<Rightarrow>
             (case str_partition auth_string (CHR '' '') of
                (basic, _, encoded) \<Rightarrow>
                  if basic \<noteq> ''Basic'' then (Inl (AuthenticationError ''UnsupportedType''), d)
                  else
                    (case b64decode_utf8 x encoded of
                       Inl e \<Rightarrow> (Inl e, d)
                     | Inr credentials \<Rightarrow>
                         (case str_partition credentials (CHR '':'') of
                            (username, _, password) \<Rightarrow>
                              if \<not> (constant_time_compare username (rpc_user d)
                                     \<and> constant_time_compare password (rpc_password d))
                              then (Inl (AuthenticationError ''Invalid Credentials''),
                                    d\<lparr>trace := trace d @ [Sleep (1 / 20)]\<rparr>)
                              else (Inr (), d))))))"


subsection \<open>The HTTP handler\<close>

record http_request =
  req_headers :: "string \<rightharpoonup> string"
  req_text :: string

record rpc_response =
  wanted :: bool
  deserialized :: pyval
  http_status :: nat

datatype web_response =
    Response string nat
  | json_response pyval nat

text \<open>
  \<open>Response t s\<close> is \<^verbatim>\<open>web.Response(text=t, status=s)\<close>; the bare \<^verbatim>\<open>web.Response()\<close> has
  an empty body and status 200. The dispatcher of the JSON-RPC library is the parameter
  \<open>async_dispatch\<close>; it may run any registered method and so change the daemon.
\<close>

definition handle ::
  "ext \<Rightarrow> (string \<Rightarrow> daemon \<Rightarrow> rpc_response \<times> daemon) \<Rightarrow> daemon \<Rightarrow> http_request
     \<Rightarrow> (exn + web_response) \<times> daemon" where
  "handle x async_dispatch d request =
     (case authenticate x d (req_headers request) of
        (Inl e, d1) \<Rightarrow>
          (case e of
             AuthenticationError m \<Rightarrow> (Inr (Response ''Forbidden'' 403), d1)
           | _ \<Rightarrow> (Inl e, d1))
      | (Inr u, d1) \<Rightarrow>
          (case async_dispatch (req_text request)
                  (d1\<lparr>trace := trace d1 @ [Dispatch (req_text request)]\<rparr>) of
             (response, d2) \<Rightarrow>
               if wanted response
               then (Inr (json_response (deserialized response) (http_status response)), d2)
               else (Inr (Response [] 200), d2)))"


subsection \<open>Running a command for the command line\<close>

definition basename :: "string \<Rightarrow> string" where
  \<comment> \<open>\<^verbatim>\<open>os.path.basename\<close> on a POSIX path: what follows the last slash.\<close>
  "basename p = rev (takeWhile (\<lambda>c. c \<noteq> CHR ''/'') (rev p))"

definition not_loaded :: "string \<Rightarrow> pyval" where
  \<open>not_loaded p =
     PDict [(''error'',
             PStr (''Wallet "'' @ basename p @ ''" is not loaded. Use "electrum load_wallet"''))]\<close>

definition wrapping_TypeError :: string where
  "wrapping_TypeError = ''Wrapping TypeError to prevent JSONRPC-Pelix from hiding traceback''"

text \<open>
  \<open>methods\<close> is the attribute table of class \<^verbatim>\<open>Commands\<close>: \<^verbatim>\<open>getattr(cmd_runner, cmd.name)\<close>
  is the wrapper of the function stored under that name. The first attribute access on
  \<^verbatim>\<open>self.network\<close> fails when the daemon runs offline.
\<close>

definition run_cmdline ::
  "ext \<Rightarrow> (string \<rightharpoonup> command) \<Rightarrow> (string \<rightharpoonup> pyfunc) \<Rightarrow> daemon \<Rightarrow> (string \<rightharpoonup> pyval)
     \<Rightarrow> exn + pyval" where
  "run_cmdline x known_commands methods d config_options =
     (let config = SimpleConfig x config_options in
      if \<not> has_network d then Inl (AttributeError ''config'')
      else
        (case config_get config ''cmd'' of
           PStr cmdname \<Rightarrow>
             (case known_commands cmdname of
                None \<Rightarrow> Inl (KeyError cmdname)
              | Some cmd \<Rightarrow>
                  let p = standardize_path x (get_wallet_path config);
                      wallet = (if requires_wallet cmd then wallets d p else None)
                  in if requires_wallet cmd \<and> wallet = None then Inr (not_loaded p)
                     else
                       let args = map (\<lambda>a. json_decode x (config_get config a)) (params cmd);
                           kwargs = map_of (map (\<lambda>a. (a,
                                      if a = ''password'' \<or> a = ''new_password''
                                      then kwargs_get config_options a
                                      else config_get config a)) (options cmd));
                           cmd_runner = \<lparr>cmd_config = config, cmd_wallet = wallet\<rparr>
                       in (case methods (name cmd) of
                             None \<Rightarrow> Inl (AttributeError (name cmd))
                           | Some func \<Rightarrow>
                               (case await (func_wrapper known_commands func cmd_runner
                                              args kwargs) of
                                  Inl e \<Rightarrow>
                                    (case e of
                                       TypeError m \<Rightarrow> Inl (Exception wrapping_TypeError)
                                     | _ \<Rightarrow> Inl e)
                                | Inr result \<Rightarrow> Inr result)))
         | _ \<Rightarrow> Inl (KeyError [])))"


subsection \<open>The instance lock\<close>

text \<open>
  The lock file either fails to parse (\<^verbatim>\<open>ast.literal_eval\<close> or the tuple destructuring
  raises: empty, partially written or otherwise malformed content) or evaluates to
  \<^verbatim>\<open>((host, port), create_time)\<close>. The daemon writes a string, an integer and a float
  there, but a reader may find other values, and what the code does with them is part of
  the model. The host is formatted with \<^verbatim>\<open>%s\<close>, which accepts any value: it is the text
  it formats to. The port is a number or a value that \<^verbatim>\<open>%d\<close> rejects, on which the URL
  formatting raises \<^verbatim>\<open>TypeError\<close> outside the \<^verbatim>\<open>try\<close>. The creation time is a number, a
  falsy value that is not a number (\<^verbatim>\<open>None\<close>, an empty string), or a truthy value that
  does not compare with a float, on which the comparison raises \<^verbatim>\<open>TypeError\<close>. The
  number zero is falsy too.

  The operating system is a state: the lock file (\<open>None\<close> when it does not exist), the
  clock read by \<^verbatim>\<open>time.time()\<close>, and the log of the system calls made. What a connection
  attempt gives is a parameter: a function of the address, the endpoint and the time; it
  answers, is refused (\<^verbatim>\<open>ClientConnectorError\<close>) or fails with another exception
  (a timeout, an error response). Time is counted in seconds as a rational number and
  passes only in \<^verbatim>\<open>time.sleep\<close>. The exclusive create fails only because the file exists.
\<close>

datatype lock_port =
    Port nat
  | BadPort

datatype lock_time =
    Time rat
  | FalsyTime
  | BadTime

datatype lock_content =
    Unparsable
  | Entry string lock_port lock_time

datatype probe =
    Result pyval
  | ClientConnectorError
  | Failure exn

datatype os_event =
    Created
  | CreateFailed
  | Connected string nat
  | Unlinked
  | Slept rat

datatype fd = LockFd

record os_state =
  lockfile :: "lock_content option"
  clock :: rat
  oslog :: "os_event list"

definition remove_lockfile :: "os_state \<Rightarrow> os_state" where
  "remove_lockfile s = s\<lparr>lockfile := None, oslog := oslog s @ [Unlinked]\<rparr>"

text \<open>
  Both loops are \<^verbatim>\<open>while True\<close>; the first argument bounds the number of iterations and
  \<open>None\<close> means the bound was reached.
\<close>

fun request ::
  "nat \<Rightarrow> (string \<Rightarrow> nat \<Rightarrow> string \<Rightarrow> rat \<Rightarrow> probe) \<Rightarrow> string \<Rightarrow> os_state
     \<Rightarrow> ((exn + pyval) \<times> os_state) option" where
  "request 0 rpc endpoint s = None"
| "request (Suc fuel) rpc endpoint s =
     (case lockfile s of
        None \<Rightarrow> Some (Inl DaemonNotRunning, s)
      | Some Unparsable \<Rightarrow> Some (Inl DaemonNotRunning, s)
      | Some (Entry host BadPort create_time) \<Rightarrow>
          Some (Inl (TypeError ''%d format: a number is required''), s)
      | Some (Entry host (Port port) create_time) \<Rightarrow>
          let s1 = s\<lparr>oslog := oslog s @ [Connected host port]\<rparr> in
          (case rpc host port endpoint (clock s) of
             Result v \<Rightarrow> Some (Inr v, s1)
           | Failure e \<Rightarrow> Some (Inl e, s1)
           | ClientConnectorError \<Rightarrow>
               (case create_time of
                  FalsyTime \<Rightarrow> Some (Inl DaemonNotRunning, s1)
                | BadTime \<Rightarrow> Some (Inl (TypeError ''< not supported between these types''), s1)
                | Time t \<Rightarrow>
                    if t = 0 \<or> t < clock s1 - 1
                    then Some (Inl DaemonNotRunning, s1)
                    else request fuel rpc endpoint
                           (s1\<lparr>clock := clock s1 + 1, oslog := oslog s1 @ [Slept 1]\<rparr>))))"

fun get_file_descriptor ::
  "nat \<Rightarrow> (string \<Rightarrow> nat \<Rightarrow> string \<Rightarrow> rat \<Rightarrow> probe) \<Rightarrow> os_state
     \<Rightarrow> ((exn + fd option) \<times> os_state) option" where
  "get_file_descriptor 0 rpc s = None"
| "get_file_descriptor (Suc fuel) rpc s =
     (case lockfile s of
        None \<Rightarrow>
          Some (Inr (Some LockFd),
                s\<lparr>lockfile := Some Unparsable, oslog := oslog s @ [Created]\<rparr>)
      | Some c \<Rightarrow>
          (case request fuel rpc ''ping'' (s\<lparr>oslog := oslog s @ [CreateFailed]\<rparr>) of
             None \<Rightarrow> None
           | Some (Inr v, s') \<Rightarrow> Some (Inr None, s')
           | Some (Inl e, s') \<Rightarrow>
               (case e of
                  DaemonNotRunning \<Rightarrow> get_file_descriptor fuel rpc (remove_lockfile s')
                | _ \<Rightarrow> Some (Inl e, s'))))"


section \<open>Concrete collaborators and inputs\<close>

text \<open>
  A small world on which the definitions are evaluated: a path normaliser that makes
  relative paths absolute, three wallet files (a plain one, an encrypted one whose
  password is \<open>secret\<close>, and one that needs an upgrade), a configuration that reads
  the command-line options, and a two-entry table for the base64 decoder.
\<close>


definition ex_standardize :: "string \<Rightarrow> string" where
  "ex_standardize p =
     (case p of [] \<Rightarrow> ''/'' | c # cs \<Rightarrow> if c = CHR ''/'' then p else ''/home/u/'' @ p)"

definition ex_store :: "string \<Rightarrow> wallet_storage" where
  "ex_store p =
     \<lparr>path = p,
      file_exists = (p = ''/home/u/plain'' \<or> p = ''/home/u/enc'' \<or> p = ''/home/u/old''),
      is_encrypted = (p = ''/home/u/enc''),
      requires_split = False,
      requires_upgrade = (p = ''/home/u/old''),
      get_action = False\<rparr>"

definition ex_decrypt :: "wallet_storage \<Rightarrow> string \<Rightarrow> exn + wallet_storage" where
  "ex_decrypt st pw = (if pw = ''secret'' then Inr st else Inl (ExternalError ''InvalidPassword''))"

definition ex_config :: "(string \<rightharpoonup> pyval) \<Rightarrow> simple_config" where
  "ex_config opts =
     \<lparr>config_get = kwargs_get opts,
      get_wallet_path = (case opts ''wallet_path'' of Some (PStr p) \<Rightarrow> p | _ \<Rightarrow> ''default_wallet'')\<rparr>"

definition ex_b64 :: "string \<Rightarrow> exn + string" where
  "ex_b64 e =
     (if e = ''dXNlcjpwdw=='' then Inr ''user:pw''
      else if e = ''dXNlcjpiYWQ='' then Inr ''user:bad''
      else Inl (ExternalError ''binascii.Error''))"

definition ex_ext :: ext where
  "ex_ext =
     \<lparr>standardize_path = ex_standardize,
      WalletStorage = ex_store,
      decrypt = ex_decrypt,
      Wallet_raises = (\<lambda>st. None),
      wallet_has_password = is_encrypted,
      start_network_raises = (\<lambda>w. None),
      stop_threads_raises = (\<lambda>w. None),
      SimpleConfig = ex_config,
      json_decode = (\<lambda>v. v),
      b64decode_utf8 = ex_b64\<rparr>"

text \<open>Two command functions whose body raises as soon as it is entered.\<close>

definition ex_getbalance :: pyfunc where
  "ex_getbalance =
     \<lparr>func_name = ''getbalance'',
      func_doc = Some ''Return the balance of your wallet. '',
      co_varnames = [''self''],
      co_argcount = 1,
      func_defaults = None,
      func_body = (\<lambda>self args kwargs. Inl (Exception ''body entered''))\<rparr>"

definition ex_getseed :: pyfunc where
  "ex_getseed =
     \<lparr>func_name = ''getseed'',
      func_doc = Some ''Get seed phrase. Print the generation seed of your wallet.'',
      co_varnames = [''self'', ''password''],
      co_argcount = 2,
      func_defaults = Some [PNone],
      func_body = (\<lambda>self args kwargs. Inl (Exception ''body entered''))\<rparr>"

definition ex_known :: "string \<rightharpoonup> command" where
  "ex_known = command ''wp'' ex_getseed (command ''w'' ex_getbalance Map.empty)"

definition ex_methods :: "string \<rightharpoonup> pyfunc" where
  "ex_methods = [''getbalance'' \<mapsto> ex_getbalance, ''getseed'' \<mapsto> ex_getseed]"

definition ex_daemon :: daemon where
  "ex_daemon =
     \<lparr>rpc_user = ''user'', rpc_password = ''pw'', has_network = True,
      wallets = Map.empty, current_wallet = None, trace = []\<rparr>"

definition ex_wallet :: abstract_wallet where
  "ex_wallet = \<lparr>storage = ex_store ''/home/u/enc'', has_password = True, network_started = True\<rparr>"

definition ex_ping :: string where
  \<open>ex_ping = ''{"jsonrpc": "2.0", "method": "ping", "id": 1}''\<close>

definition ex_dispatch :: "string \<Rightarrow> daemon \<Rightarrow> rpc_response \<times> daemon" where
  "ex_dispatch text d =
     (\<lparr>wanted = True,
       deserialized = PDict [(''jsonrpc'', PStr ''2.0''), (''result'', PBool True), (''id'', PInt 1)],
       http_status = 200\<rparr>, d)"


section \<open>Initialised sessions\<close>

text \<open>
  A session is fully initialised when \<^verbatim>\<open>start_network\<close> has completed on it and its store
  has passed the three refusals of \<^verbatim>\<open>load_wallet\<close> (split, upgrade, pending action).
\<close>

definition fully_initialized :: "abstract_wallet \<Rightarrow> bool" where
  "fully_initialized w =
     (network_started w \<and> \<not> requires_split (storage w) \<and> \<not> requires_upgrade (storage w)
      \<and> \<not> get_action (storage w))"

definition sessions_initialized :: "daemon \<Rightarrow> bool" where
  "sessions_initialized d = (\<forall>w \<in> ran (wallets d). fully_initialized w)"

text \<open>
  The daemon starts with an empty session map (\<^verbatim>\<open>self.wallets = {}\<close>). The open and the
  close operation are then called in any order, on any paths and with any passwords, by
  the commands \<^verbatim>\<open>load_wallet\<close> and \<^verbatim>\<open>close_wallet\<close>; whatever a call returns or raises,
  the daemon goes on in the state the call left.
\<close>

datatype session_op =
    Open string "string option"
  | Close string

fun session_step :: "ext \<Rightarrow> daemon \<Rightarrow> session_op \<Rightarrow> daemon" where
  "session_step x d (Open path0 password) = snd (load_wallet x d path0 password)"
| "session_step x d (Close path0) = snd (stop_wallet x d path0)"

definition run_sessions :: "ext \<Rightarrow> daemon \<Rightarrow> session_op list \<Rightarrow> daemon" where
  "run_sessions x d ops = foldl (session_step x) d ops"


section \<open>Concrete lock files and daemons\<close>

text \<open>
  A daemon that answers \<^verbatim>\<open>ping\<close> on 127.0.0.1:7777, no daemon at all, a daemon that is
  still starting and answers from second 1001 on, a daemon that holds the port but lets
  the probe time out, and a system whose clock reads 1000 seconds.
\<close>

definition ex_rpc_alive :: "string \<Rightarrow> nat \<Rightarrow> string \<Rightarrow> rat \<Rightarrow> probe" where
  "ex_rpc_alive host port endpoint t =
     (if host = ''127.0.0.1'' \<and> port = 7777 \<and> endpoint = ''ping''
      then Result (PBool True) else ClientConnectorError)"

definition ex_rpc_dead :: "string \<Rightarrow> nat \<Rightarrow> string \<Rightarrow> rat \<Rightarrow> probe" where
  "ex_rpc_dead host port endpoint t = ClientConnectorError"

definition ex_rpc_starting :: "string \<Rightarrow> nat \<Rightarrow> string \<Rightarrow> rat \<Rightarrow> probe" where
  "ex_rpc_starting host port endpoint t =
     (if 1001 \<le> t then Result (PBool True) else ClientConnectorError)"

definition ex_rpc_hung :: "string \<Rightarrow> nat \<Rightarrow> string \<Rightarrow> rat \<Rightarrow> probe" where
  "ex_rpc_hung host port endpoint t = Failure (ExternalError ''TimeoutError'')"

definition ex_os :: "lock_content option \<Rightarrow> os_state" where
  "ex_os content = \<lparr>lockfile = content, clock = 1000, oslog = []\<rparr>"


section \<open>Facts about the concrete inputs\<close>

lemma command_names:
  "func_name ex_getbalance = ''getbalance''" "func_name ex_getseed = ''getseed''"
  by (simp_all add: ex_getbalance_def ex_getseed_def)

lemma Command_flags:
  "requires_wallet (Command f s) = (CHR ''w'' \<in> set s)"
  "requires_password (Command f s) = (CHR ''p'' \<in> set s)"
  "requires_network (Command f s) = (CHR ''n'' \<in> set s)"
  "name (Command f s) = func_name f"
  by (simp_all add: Command_def Let_def)

lemma ex_known_getbalance: "ex_known ''getbalance'' = Some (Command ex_getbalance ''w'')"
  by (simp add: ex_known_def command_def command_names)

lemma ex_known_getseed: "ex_known ''getseed'' = Some (Command ex_getseed ''wp'')"
  by (simp add: ex_known_def command_def command_names)

lemma ex_getseed_signature:
  "params (Command ex_getseed ''wp'') = []"
  "options (Command ex_getseed ''wp'') = [''password'']"
  by (simp_all add: Command_def ex_getseed_def)

lemma ex_paths:
  "standardize_path ex_ext ''enc'' = ''/home/u/enc''"
  "standardize_path ex_ext ''gone'' = ''/home/u/gone''"
  "standardize_path ex_ext ''old'' = ''/home/u/old''"
  "standardize_path ex_ext ''plain'' = ''/home/u/plain''"
  "standardize_path ex_ext ''/home/u/new'' = ''/home/u/new''"
  by (simp_all add: ex_ext_def ex_standardize_def)

lemma ex_ext_fields:
  "WalletStorage ex_ext = ex_store" "decrypt ex_ext = ex_decrypt"
  "Wallet_raises ex_ext = (\<lambda>st. None)" "start_network_raises ex_ext = (\<lambda>w. None)"
  "stop_threads_raises ex_ext = (\<lambda>w. None)" "wallet_has_password ex_ext = is_encrypted"
  by (simp_all add: ex_ext_def)


section \<open>The precondition wrapper\<close>

text \<open>
  C1, as stated, fails on the wrapper: a command registered with the wallet flag, called
  on a command runner that has no wallet (the runner the daemon registers its JSON-RPC
  methods on), raises \<^verbatim>\<open>Exception\<close>; it does not return an error object.
\<close>

theorem C1_counterexample:
  "func_wrapper ex_known ex_getbalance
     \<lparr>cmd_config = ex_config Map.empty, cmd_wallet = None\<rparr> [] Map.empty
   = Inl (Exception wallet_not_loaded)"
  by (simp add: func_wrapper_def command_names ex_known_getbalance Command_flags)

text \<open>
  C1, amended. For an operation that requires a wallet, with no wallet bound, the body is
  never entered (the outcome is the same for every body): a direct call of the wrapped
  operation raises \<^verbatim>\<open>Exception("wallet not loaded. ...")\<close>, and \<^verbatim>\<open>run_cmdline\<close> on a
  daemon with a network returns the structured object
  \<^verbatim>\<open>{'error': 'Wallet "<basename>" is not loaded. Use "electrum load_wallet"'}\<close> whatever
  the method table holds.
\<close>

theorem C1_wallet_not_loaded:
  "(known_commands (func_name func) = Some c \<and> requires_wallet c \<and> cmd_wallet self = None
      \<longrightarrow> func_wrapper known_commands (func\<lparr>func_body := body\<rparr>) self args kwargs
            = Inl (Exception wallet_not_loaded))
   \<and> (has_network d \<and> config_get (SimpleConfig x config_options) ''cmd'' = PStr cmdname
        \<and> known_commands cmdname = Some cmd \<and> requires_wallet cmd
        \<and> wallets d (standardize_path x (get_wallet_path (SimpleConfig x config_options))) = None
      \<longrightarrow> run_cmdline x known_commands methods d config_options
            = Inr (not_loaded (standardize_path x (get_wallet_path (SimpleConfig x config_options)))))"
  by (simp add: func_wrapper_def run_cmdline_def Let_def)

text \<open>
  Witness of C1: \<^verbatim>\<open>getbalance\<close>, whose body raises if entered, called directly and
  through \<^verbatim>\<open>run_cmdline\<close> on a daemon with no open wallet.
\<close>

theorem C1_wallet_not_loaded_witness:
  "func_wrapper ex_known ex_getbalance
     \<lparr>cmd_config = ex_config Map.empty, cmd_wallet = None\<rparr> [] Map.empty
   = Inl (Exception wallet_not_loaded)
   \<and> run_cmdline ex_ext ex_known ex_methods ex_daemon
        [''cmd'' \<mapsto> PStr ''getbalance'', ''wallet_path'' \<mapsto> PStr ''plain'']
      = Inr (not_loaded ''/home/u/plain'')"
proof -
  let ?self = "\<lparr>cmd_config = ex_config Map.empty, cmd_wallet = None\<rparr>"
  let ?opts = "[''cmd'' \<mapsto> PStr ''getbalance'', ''wallet_path'' \<mapsto> PStr ''plain'']"
  have body: "ex_getbalance\<lparr>func_body := func_body ex_getbalance\<rparr> = ex_getbalance"
    by simp
  have cfg: "SimpleConfig ex_ext = ex_config" "standardize_path ex_ext = ex_standardize"
    by (simp_all add: ex_ext_def)
  have a: "config_get (ex_config ?opts) ''cmd'' = PStr ''getbalance''"
    by (simp add: ex_config_def kwargs_get_def)
  have p: "ex_standardize (get_wallet_path (ex_config ?opts)) = ''/home/u/plain''"
    by (simp add: ex_config_def ex_standardize_def)
  have d: "has_network ex_daemon" "wallets ex_daemon ''/home/u/plain'' = None"
    by (simp_all add: ex_daemon_def)
  from C1_wallet_not_loaded [of ex_known ex_getbalance "Command ex_getbalance ''w''" ?self
      "func_body ex_getbalance" "[]" Map.empty ex_daemon ex_ext ?opts "''getbalance''"
      "Command ex_getbalance ''w''" ex_methods]
  show ?thesis
    by (simp add: body cfg a p d command_names ex_known_getbalance Command_flags)
qed

text \<open>
  The keyword arguments that \<^verbatim>\<open>run_cmdline\<close> builds carry no password when the
  command-line options carry none.
\<close>

lemma kwargs_without_password:
  assumes "kwargs_get config_options ''password'' = PNone"
  shows "kwargs_get
           (map_of (map (\<lambda>a. (a, if a = ''password'' \<or> a = ''new_password''
                                   then kwargs_get config_options a else g a)) opts))
           ''password'' = PNone"
  using assms by (induction opts) (auto simp add: kwargs_get_def)

lemma func_wrapper_password_required:
  assumes "known_commands (func_name func) = Some c"
    and "requires_password c"
    and "cmd_wallet self = Some w"
    and "has_password w"
    and "kwargs_get kwargs ''password'' = PNone"
  shows "func_wrapper known_commands func self args kwargs = Inr (Plain password_required)"
  using assms by (simp add: func_wrapper_def Let_def)

text \<open>
  C6: an operation that requires the password, invoked on a password-protected wallet
  session with no password, should give its invoker the structured result
  \<^verbatim>\<open>{'error': 'Password required'}\<close> without entering the body. The code does not
  deliver it. The wrapper builds that dictionary, for every body, but it is a plain
  function around coroutine functions and its callers await what it returns: awaiting
  the dictionary raises \<^verbatim>\<open>TypeError\<close>, and \<^verbatim>\<open>run_cmdline\<close> raises it again as a
  generic \<^verbatim>\<open>Exception\<close>. So the invoker gets an exception where the claim says a
  result.
\<close>

theorem C6_password_required_not_delivered:
  "(known_commands (func_name func) = Some c \<and> requires_password c
      \<and> cmd_wallet self = Some w \<and> has_password w
      \<and> kwargs_get kwargs ''password'' = PNone
      \<longrightarrow> func_wrapper known_commands (func\<lparr>func_body := body\<rparr>) self args kwargs
            = Inr (Plain password_required)
          \<and> await (func_wrapper known_commands (func\<lparr>func_body := body\<rparr>) self args kwargs)
            = Inl (TypeError not_awaitable))
   \<and> (has_network d \<and> config_get (SimpleConfig x config_options) ''cmd'' = PStr cmdname
        \<and> known_commands cmdname = Some cmd \<and> name cmd = cmdname
        \<and> requires_wallet cmd \<and> requires_password cmd
        \<and> wallets d (standardize_path x (get_wallet_path (SimpleConfig x config_options)))
            = Some w
        \<and> has_password w
        \<and> kwargs_get config_options ''password'' = PNone
        \<and> methods cmdname = Some func \<and> func_name func = cmdname
      \<longrightarrow> run_cmdline x known_commands methods d config_options
            = Inl (Exception wrapping_TypeError))"
proof (intro conjI impI)
  assume a: "known_commands (func_name func) = Some c \<and> requires_password c
      \<and> cmd_wallet self = Some w \<and> has_password w
      \<and> kwargs_get kwargs ''password'' = PNone"
  then have "known_commands (func_name (func\<lparr>func_body := body\<rparr>)) = Some c"
    by simp
  with a show r: "func_wrapper known_commands (func\<lparr>func_body := body\<rparr>) self args kwargs
      = Inr (Plain password_required)"
    by (intro func_wrapper_password_required) auto
  then show "await (func_wrapper known_commands (func\<lparr>func_body := body\<rparr>) self args kwargs)
      = Inl (TypeError not_awaitable)"
    by simp
next
  assume a: "has_network d \<and> config_get (SimpleConfig x config_options) ''cmd'' = PStr cmdname
        \<and> known_commands cmdname = Some cmd \<and> name cmd = cmdname
        \<and> requires_wallet cmd \<and> requires_password cmd
        \<and> wallets d (standardize_path x (get_wallet_path (SimpleConfig x config_options)))
            = Some w
        \<and> has_password w
        \<and> kwargs_get config_options ''password'' = PNone
        \<and> methods cmdname = Some func \<and> func_name func = cmdname"
  let ?config = "SimpleConfig x config_options"
  let ?kwargs = "map_of (map (\<lambda>a. (a, if a = ''password'' \<or> a = ''new_password''
                                      then kwargs_get config_options a
                                      else config_get ?config a)) (options cmd))"
  let ?runner = "\<lparr>cmd_config = ?config, cmd_wallet = Some w\<rparr>"
  let ?args = "map (\<lambda>a. json_decode x (config_get ?config a)) (params cmd)"
  from a have "kwargs_get ?kwargs ''password'' = PNone"
    by (intro kwargs_without_password) simp
  with a have "func_wrapper known_commands func ?runner ?args ?kwargs
      = Inr (Plain password_required)"
    by (intro func_wrapper_password_required [where c = cmd and w = w]) auto
  then have "await (func_wrapper known_commands func ?runner ?args ?kwargs)
      = Inl (TypeError not_awaitable)"
    by simp
  with a show "run_cmdline x known_commands methods d config_options
      = Inl (Exception wrapping_TypeError)"
    by (simp add: run_cmdline_def Let_def)
qed

text \<open>
  Witness of C6, the failing input: \<^verbatim>\<open>getseed\<close>, whose body raises if entered, on the
  encrypted wallet with no password given, called directly, awaited, and run through
  \<^verbatim>\<open>run_cmdline\<close>.
\<close>

theorem C6_password_required_not_delivered_witness:
  "func_wrapper ex_known ex_getseed
     \<lparr>cmd_config = ex_config Map.empty, cmd_wallet = Some ex_wallet\<rparr> [] Map.empty
   = Inr (Plain (PDict [(''error'', PStr ''Password required'')]))
   \<and> await (func_wrapper ex_known ex_getseed
        \<lparr>cmd_config = ex_config Map.empty, cmd_wallet = Some ex_wallet\<rparr> [] Map.empty)
     = Inl (TypeError not_awaitable)
   \<and> run_cmdline ex_ext ex_known ex_methods
        (ex_daemon\<lparr>wallets := [''/home/u/enc'' \<mapsto> ex_wallet]\<rparr>)
        [''cmd'' \<mapsto> PStr ''getseed'', ''wallet_path'' \<mapsto> PStr ''enc'']
     = Inl (Exception wrapping_TypeError)"
proof -
  let ?self = "\<lparr>cmd_config = ex_config Map.empty, cmd_wallet = Some ex_wallet\<rparr>"
  let ?opts = "[''cmd'' \<mapsto> PStr ''getseed'', ''wallet_path'' \<mapsto> PStr ''enc'']"
  let ?d = "ex_daemon\<lparr>wallets := [''/home/u/enc'' \<mapsto> ex_wallet]\<rparr>"
  have body: "ex_getseed\<lparr>func_body := func_body ex_getseed\<rparr> = ex_getseed"
    by simp
  have cfg: "SimpleConfig ex_ext = ex_config" "standardize_path ex_ext = ex_standardize"
    by (simp_all add: ex_ext_def)
  have cmd: "config_get (ex_config ?opts) ''cmd'' = PStr ''getseed''"
    "kwargs_get ?opts ''password'' = PNone"
    by (simp_all add: ex_config_def kwargs_get_def)
  have p: "ex_standardize (get_wallet_path (ex_config ?opts)) = ''/home/u/enc''"
    by (simp add: ex_config_def ex_standardize_def)
  have d: "has_network ?d" "wallets ?d ''/home/u/enc'' = Some ex_wallet"
    by (simp_all add: ex_daemon_def)
  have w: "has_password ex_wallet"
    by (simp add: ex_wallet_def)
  have m: "ex_methods ''getseed'' = Some ex_getseed"
    by (simp add: ex_methods_def)
  from C6_password_required_not_delivered [where known_commands = ex_known
      and func = ex_getseed and c = "Command ex_getseed ''wp''" and self = ?self
      and w = ex_wallet and kwargs = Map.empty and body = "func_body ex_getseed"
      and args = "[]" and d = ?d and x = ex_ext and config_options = ?opts
      and cmdname = "''getseed''" and cmd = "Command ex_getseed ''wp''"
      and methods = ex_methods]
  show ?thesis
    by (simp add: body cfg cmd p d w m command_names ex_known_getseed Command_flags
        kwargs_get_def password_required_def)
qed


section \<open>The registry\<close>

text \<open>
  C9, as stated, fails: registering a second function under the name \<^verbatim>\<open>getbalance\<close>
  raises nothing and the registry then holds the second descriptor, which differs from
  the first.
\<close>

theorem C9_counterexample:
  "command ''w'' ex_getbalance Map.empty ''getbalance'' = Some (Command ex_getbalance ''w'')
   \<and> command '''' (ex_getseed\<lparr>func_name := ''getbalance''\<rparr>)
        (command ''w'' ex_getbalance Map.empty) ''getbalance''
      = Some (Command (ex_getseed\<lparr>func_name := ''getbalance''\<rparr>) '''')
   \<and> Command (ex_getseed\<lparr>func_name := ''getbalance''\<rparr>) '''' \<noteq> Command ex_getbalance ''w''"
proof -
  have "requires_wallet (Command ex_getbalance ''w'')"
    and "\<not> requires_wallet (Command (ex_getseed\<lparr>func_name := ''getbalance''\<rparr>) '''')"
    by (simp_all add: Command_flags)
  then have "Command (ex_getseed\<lparr>func_name := ''getbalance''\<rparr>) '''' \<noteq> Command ex_getbalance ''w''"
    by auto
  then show ?thesis
    by (simp add: command_def command_names)
qed

text \<open>
  C9, amended. Registry names are unique because the registry is a dictionary:
  registering an operation always succeeds, the name then maps to the descriptor of the
  function just registered (replacing any earlier one), the set of names grows by at most
  that name, and every other entry is unchanged.
\<close>

theorem C9_registration_replaces:
  "command s func known_commands (func_name func) = Some (Command func s)
   \<and> dom (command s func known_commands) = insert (func_name func) (dom known_commands)
   \<and> command s func known_commands |` (- {func_name func})
      = known_commands |` (- {func_name func})"
  by (auto simp add: command_def restrict_map_def)

text \<open>Witness of C9: re-registering \<^verbatim>\<open>getbalance\<close> in the two-entry registry.\<close>

theorem C9_registration_replaces_witness:
  "command '''' (ex_getseed\<lparr>func_name := ''getbalance''\<rparr>) ex_known ''getbalance''
     = Some (Command (ex_getseed\<lparr>func_name := ''getbalance''\<rparr>) '''')
   \<and> dom (command '''' (ex_getseed\<lparr>func_name := ''getbalance''\<rparr>) ex_known)
     = {''getbalance'', ''getseed''}"
proof -
  have "dom ex_known = {''getbalance'', ''getseed''}"
    by (auto simp add: ex_known_def command_def command_names)
  with C9_registration_replaces [of "''''" "ex_getseed\<lparr>func_name := ''getbalance''\<rparr>" ex_known]
  show ?thesis
    by simp
qed


section \<open>The session manager\<close>

text \<open>
  C7. Opening a path whose normalised form already has a session returns that session and
  leaves the whole daemon state as it was: the session map, the current wallet and the
  trace (so no second \<open>StartNetwork\<close>).
\<close>

theorem C7_open_idempotent:
  assumes "wallets d (standardize_path x path0) = Some w"
  shows "load_wallet x d path0 password = (Inr (Some w), d)"
  using assms by (simp add: load_wallet_def)

text \<open>Witness of C7: the relative path \<^verbatim>\<open>enc\<close> when \<^verbatim>\<open>/home/u/enc\<close> is open.\<close>

theorem C7_open_idempotent_witness:
  "load_wallet ex_ext (ex_daemon\<lparr>wallets := [''/home/u/enc'' \<mapsto> ex_wallet]\<rparr>) ''enc'' None
   = (Inr (Some ex_wallet), ex_daemon\<lparr>wallets := [''/home/u/enc'' \<mapsto> ex_wallet]\<rparr>)"
proof -
  have "wallets (ex_daemon\<lparr>wallets := [''/home/u/enc'' \<mapsto> ex_wallet]\<rparr>)
          (standardize_path ex_ext ''enc'') = Some ex_wallet"
    by (simp add: ex_ext_def ex_standardize_def)
  then show ?thesis
    by (rule C7_open_idempotent)
qed

text \<open>
  C2, as stated, fails twice. A path that already has a session is answered with that
  session although its file no longer exists (the map is consulted before the store).
  And \<^verbatim>\<open>load_wallet\<close> has no handler around \<^verbatim>\<open>storage.decrypt\<close>: with a decrypt
  that raises on a wrong password, opening the encrypted file with the wrong password
  raises that exception; it does not return \<^verbatim>\<open>None\<close>.
\<close>

theorem C2_counterexample:
  "\<not> file_exists (WalletStorage ex_ext ''/home/u/gone'')
   \<and> load_wallet ex_ext (ex_daemon\<lparr>wallets := [''/home/u/gone'' \<mapsto> ex_wallet]\<rparr>) ''gone'' None
     = (Inr (Some ex_wallet), ex_daemon\<lparr>wallets := [''/home/u/gone'' \<mapsto> ex_wallet]\<rparr>)
   \<and> is_encrypted (WalletStorage ex_ext ''/home/u/enc'')
   \<and> load_wallet ex_ext ex_daemon ''enc'' (Some ''bad'')
     = (Inl (ExternalError ''InvalidPassword''), ex_daemon)"
  by (simp add: load_wallet_def ex_paths ex_ext_fields ex_store_def ex_decrypt_def ex_daemon_def)

lemma load_wallet_null_with_password:
  assumes "wallets d (standardize_path x path0) = None"
    and "st = WalletStorage x (standardize_path x path0)"
    and "file_exists st" and "is_encrypted st" and "pw \<noteq> []"
    and "fst (load_wallet x d path0 (Some pw)) = Inr None"
  shows "\<exists>st'. decrypt x st pw = Inr st'
           \<and> (requires_split st' \<or> requires_upgrade st' \<or> get_action st')"
proof (cases "decrypt x st pw")
  case (Inl e)
  with assms show ?thesis
    by (simp add: load_wallet_def Let_def)
next
  case (Inr st')
  with assms have "requires_split st' \<or> requires_upgrade st' \<or> get_action st'"
    by (auto simp add: load_wallet_def Let_def split: if_splits sum.splits)
  with Inr show ?thesis
    by simp
qed

text \<open>
  C2, amended. For a path that has no open session: if the file does not exist the result
  is \<^verbatim>\<open>None\<close>; if the store is encrypted and the password is absent (\<^verbatim>\<open>None\<close> or the
  empty string) the result is \<^verbatim>\<open>None\<close>; if the store is encrypted and a password is
  given, an exception raised by \<^verbatim>\<open>decrypt\<close> is raised by \<^verbatim>\<open>load_wallet\<close>; if the store
  (as it is after a successful decrypt, when encrypted) requires a split or an upgrade the
  result is \<^verbatim>\<open>None\<close>. In all the \<^verbatim>\<open>None\<close> cases and in the raising case the daemon
  state is unchanged. With a password given for an encrypted store, \<^verbatim>\<open>None\<close> is returned
  only when decrypt returned and the decrypted store was refused: whatever decrypt does
  with a wrong password, \<^verbatim>\<open>load_wallet\<close> itself never answers it with \<^verbatim>\<open>None\<close>.
\<close>

theorem C2_open_refusals:
  assumes "wallets d (standardize_path x path0) = None"
    and "st = WalletStorage x (standardize_path x path0)"
  shows
    "(\<not> file_exists st \<longrightarrow> load_wallet x d path0 password = (Inr None, d))
     \<and> (file_exists st \<and> is_encrypted st \<and> (password = None \<or> password = Some [])
        \<longrightarrow> load_wallet x d path0 password = (Inr None, d))
     \<and> (file_exists st \<and> is_encrypted st \<and> password = Some pw \<and> pw \<noteq> []
          \<and> decrypt x st pw = Inl e
        \<longrightarrow> load_wallet x d path0 password = (Inl e, d))
     \<and> (file_exists st \<and> is_encrypted st \<and> password = Some pw \<and> pw \<noteq> []
          \<and> decrypt x st pw = Inr st' \<and> (requires_split st' \<or> requires_upgrade st')
        \<longrightarrow> load_wallet x d path0 password = (Inr None, d))
     \<and> (file_exists st \<and> \<not> is_encrypted st \<and> (requires_split st \<or> requires_upgrade st)
        \<longrightarrow> load_wallet x d path0 password = (Inr None, d))
     \<and> (file_exists st \<and> is_encrypted st \<and> password = Some pw \<and> pw \<noteq> []
          \<and> fst (load_wallet x d path0 password) = Inr None
        \<longrightarrow> (\<exists>st'. decrypt x st pw = Inr st'
                \<and> (requires_split st' \<or> requires_upgrade st' \<or> get_action st')))"
proof -
  have "file_exists st \<and> is_encrypted st \<and> password = Some pw \<and> pw \<noteq> []
          \<and> fst (load_wallet x d path0 password) = Inr None
        \<longrightarrow> (\<exists>st'. decrypt x st pw = Inr st'
                \<and> (requires_split st' \<or> requires_upgrade st' \<or> get_action st'))"
    using load_wallet_null_with_password [OF assms, of pw] by blast
  with assms show ?thesis
    by (auto simp add: load_wallet_def Let_def)
qed

text \<open>
  Witness of C2: a missing file, the encrypted file with no password and with a wrong
  one, and the file that needs an upgrade.
\<close>

theorem C2_open_refusals_witness:
  "load_wallet ex_ext ex_daemon ''nope'' (Some ''secret'') = (Inr None, ex_daemon)
   \<and> load_wallet ex_ext ex_daemon ''enc'' None = (Inr None, ex_daemon)
   \<and> load_wallet ex_ext ex_daemon ''enc'' (Some ''bad'')
     = (Inl (ExternalError ''InvalidPassword''), ex_daemon)
   \<and> load_wallet ex_ext ex_daemon ''old'' None = (Inr None, ex_daemon)"
proof -
  have none: "wallets ex_daemon p = None" for p
    by (simp add: ex_daemon_def)
  have nope: "standardize_path ex_ext ''nope'' = ''/home/u/nope''"
    by (simp add: ex_ext_def ex_standardize_def)
  from C2_open_refusals [OF none refl, of ex_ext "''nope''" "Some ''secret''"]
  have a: "load_wallet ex_ext ex_daemon ''nope'' (Some ''secret'') = (Inr None, ex_daemon)"
    by (simp add: nope ex_ext_fields ex_store_def)
  from C2_open_refusals [OF none refl, of ex_ext "''enc''" None]
  have b: "load_wallet ex_ext ex_daemon ''enc'' None = (Inr None, ex_daemon)"
    by (simp add: ex_paths ex_ext_fields ex_store_def)
  from C2_open_refusals [OF none refl, of ex_ext "''enc''" "Some ''bad''" "''bad''"
      "ExternalError ''InvalidPassword''"]
  have c: "load_wallet ex_ext ex_daemon ''enc'' (Some ''bad'')
     = (Inl (ExternalError ''InvalidPassword''), ex_daemon)"
    by (simp add: ex_paths ex_ext_fields ex_store_def ex_decrypt_def)
  from C2_open_refusals [OF none refl, of ex_ext "''old''" None]
  have d: "load_wallet ex_ext ex_daemon ''old'' None = (Inr None, ex_daemon)"
    by (simp add: ex_paths ex_ext_fields ex_store_def)
  from a b c d show ?thesis
    by simp
qed

text \<open>
  C3, as stated, fails on the order: closing an open session first removes it from the
  map and then stops its threads.
\<close>

theorem C3_counterexample:
  "trace (snd (stop_wallet ex_ext (ex_daemon\<lparr>wallets := [''/home/u/enc'' \<mapsto> ex_wallet]\<rparr>) ''enc''))
   = [Removed ''/home/u/enc'', StopThreads ''/home/u/enc'']"
  by (simp add: stop_wallet_def Let_def ex_paths ex_ext_fields ex_daemon_def)

text \<open>
  C3, amended. Closing a path with no session for its normalised form returns
  \<^verbatim>\<open>False\<close> and leaves the daemon unchanged, and \<^verbatim>\<open>False\<close> is returned only then.
  Closing a path that has a session removes the session from the map first and then
  stops its background activity, and returns \<^verbatim>\<open>True\<close>; if stopping raises, the
  session is already out of the map.
\<close>

theorem C3_close:
  assumes "p = standardize_path x path0"
  shows
    "(wallets d p = None \<longrightarrow> stop_wallet x d path0 = (Inr False, d))
     \<and> (wallets d p = Some w \<and> stop_threads_raises x w = None
        \<longrightarrow> stop_wallet x d path0
            = (Inr True, d\<lparr>wallets := (wallets d)(p := None),
                            trace := trace d @ [Removed p, StopThreads p]\<rparr>))
     \<and> (wallets d p = Some w \<and> stop_threads_raises x w = Some e
        \<longrightarrow> stop_wallet x d path0
            = (Inl e, d\<lparr>wallets := (wallets d)(p := None), trace := trace d @ [Removed p]\<rparr>))
     \<and> ((fst (stop_wallet x d path0) = Inr False) = (wallets d p = None))"
  using assms by (auto simp add: stop_wallet_def Let_def split: option.splits)

text \<open>Witness of C3: closing \<^verbatim>\<open>enc\<close> when nothing is open and when it is open.\<close>

theorem C3_close_witness:
  "stop_wallet ex_ext ex_daemon ''enc'' = (Inr False, ex_daemon)
   \<and> stop_wallet ex_ext (ex_daemon\<lparr>wallets := [''/home/u/enc'' \<mapsto> ex_wallet]\<rparr>) ''enc''
     = (Inr True, ex_daemon\<lparr>wallets := Map.empty,
                           trace := [Removed ''/home/u/enc'', StopThreads ''/home/u/enc'']\<rparr>)"
proof -
  let ?d = "ex_daemon\<lparr>wallets := [''/home/u/enc'' \<mapsto> ex_wallet]\<rparr>"
  have p: "''/home/u/enc'' = standardize_path ex_ext ''enc''"
    by (simp add: ex_paths)
  from C3_close [OF p, of ex_daemon]
  have a: "stop_wallet ex_ext ex_daemon ''enc'' = (Inr False, ex_daemon)"
    by (simp add: ex_daemon_def)
  from C3_close [OF p, of ?d ex_wallet]
  have b: "stop_wallet ex_ext ?d ''enc''
     = (Inr True, ex_daemon\<lparr>wallets := Map.empty,
                           trace := [Removed ''/home/u/enc'', StopThreads ''/home/u/enc'']\<rparr>)"
    by (simp add: ex_ext_fields ex_daemon_def)
  from a b show ?thesis
    by simp
qed


subsection \<open>Sessions in the map are initialised\<close>

lemma Wallet_storage: "Wallet x st = Inr w \<Longrightarrow> storage w = st \<and> \<not> network_started w"
  by (auto simp add: Wallet_def split: option.splits)

lemma start_network_started:
  "start_network x w0 = Inr w \<Longrightarrow> network_started w \<and> storage w = storage w0"
  by (auto simp add: start_network_def split: option.splits)

lemma load_wallet_cases:
  assumes "load_wallet x d path0 password = (r, d')"
    and "p = standardize_path x path0"
    and "st = WalletStorage x p"
  shows "d' = d
    \<or> (\<exists>w0 w. wallets d p = None \<and> file_exists st
          \<and> (if is_encrypted st
              then \<exists>pw. password = Some pw \<and> pw \<noteq> [] \<and> decrypt x st pw = Inr (storage w0)
              else storage w0 = st)
          \<and> \<not> requires_split (storage w0) \<and> \<not> requires_upgrade (storage w0)
          \<and> \<not> get_action (storage w0)
          \<and> Wallet x (storage w0) = Inr w0 \<and> start_network x w0 = Inr w
          \<and> r = Inr (Some w)
          \<and> d' = d\<lparr>wallets := (wallets d)(p \<mapsto> w), current_wallet := Some w,
                    trace := trace d @ [StartNetwork p, Inserted p]\<rparr>)"
proof (cases "d' = d")
  case True
  then show ?thesis by simp
next
  case False
  with assms(1) have open_: "wallets d p = None" and ex: "file_exists st"
    by (auto simp add: load_wallet_def Let_def assms(2,3) split: option.splits if_splits)
  define st' where "st' = (if is_encrypted st then
      (case password of None \<Rightarrow> Inr None
       | Some pw \<Rightarrow> if pw = [] then Inr None else map_sum id Some (decrypt x st pw))
      else Inr (Some st))"
  have lw: "load_wallet x d path0 password =
    (case st' of Inl e \<Rightarrow> (Inl e, d) | Inr None \<Rightarrow> (Inr None, d)
     | Inr (Some s) \<Rightarrow>
        if requires_split s then (Inr None, d)
        else if requires_upgrade s then (Inr None, d)
        else if get_action s then (Inr None, d)
        else (case Wallet x s of Inl e \<Rightarrow> (Inl e, d)
              | Inr w \<Rightarrow> (case start_network x w of Inl e \<Rightarrow> (Inl e, d)
                  | Inr wallet \<Rightarrow> (Inr (Some wallet),
                       d\<lparr>wallets := (wallets d)(p \<mapsto> wallet), current_wallet := Some wallet,
                         trace := trace d @ [StartNetwork p, Inserted p]\<rparr>))))"
    using open_ ex unfolding st'_def assms(2,3) by (simp add: load_wallet_def Let_def)
  from False assms(1) obtain s w0 w where s: "st' = Inr (Some s)"
    and chk: "\<not> requires_split s" "\<not> requires_upgrade s" "\<not> get_action s"
    and w0: "Wallet x s = Inr w0" and w: "start_network x w0 = Inr w"
    and res: "r = Inr (Some w)"
      "d' = d\<lparr>wallets := (wallets d)(p \<mapsto> w), current_wallet := Some w,
               trace := trace d @ [StartNetwork p, Inserted p]\<rparr>"
    unfolding lw by (auto split: sum.splits option.splits if_splits)
  from w0 have sw0: "storage w0 = s"
    by (simp add: Wallet_storage)
  from s have dec: "if is_encrypted st
      then \<exists>pw. password = Some pw \<and> pw \<noteq> [] \<and> decrypt x st pw = Inr s
      else s = st"
    by (auto simp add: st'_def map_sum_def split: if_splits option.splits sum.splits)
  show ?thesis
    using open_ ex dec chk w0 w res sw0 by auto
qed

lemma load_wallet_preserves:
  assumes "sessions_initialized d"
  shows "sessions_initialized (snd (load_wallet x d path0 password))"
proof -
  obtain r d' where res: "load_wallet x d path0 password = (r, d')"
    by (cases "load_wallet x d path0 password")
  from load_wallet_cases [OF res refl refl] show ?thesis
  proof
    assume "d' = d"
    with res assms show ?thesis by simp
  next
    assume "\<exists>w0 w. wallets d (standardize_path x path0) = None
          \<and> file_exists (WalletStorage x (standardize_path x path0))
          \<and> (if is_encrypted (WalletStorage x (standardize_path x path0))
              then \<exists>pw. password = Some pw \<and> pw \<noteq> []
                     \<and> decrypt x (WalletStorage x (standardize_path x path0)) pw = Inr (storage w0)
              else storage w0 = WalletStorage x (standardize_path x path0))
          \<and> \<not> requires_split (storage w0) \<and> \<not> requires_upgrade (storage w0)
          \<and> \<not> get_action (storage w0)
          \<and> Wallet x (storage w0) = Inr w0 \<and> start_network x w0 = Inr w
          \<and> r = Inr (Some w)
          \<and> d' = d\<lparr>wallets := (wallets d)(standardize_path x path0 \<mapsto> w), current_wallet := Some w,
                    trace := trace d @ [StartNetwork (standardize_path x path0),
                                        Inserted (standardize_path x path0)]\<rparr>"
    then obtain w0 w where none: "wallets d (standardize_path x path0) = None"
      and chk: "\<not> requires_split (storage w0)" "\<not> requires_upgrade (storage w0)"
        "\<not> get_action (storage w0)"
      and w: "start_network x w0 = Inr w"
      and d': "wallets d' = (wallets d)(standardize_path x path0 \<mapsto> w)"
      by auto
    from w chk have "fully_initialized w"
      by (auto simp add: fully_initialized_def dest: start_network_started)
    moreover from none have "ran ((wallets d)(standardize_path x path0 \<mapsto> w)) = insert w (ran (wallets d))"
      by simp
    ultimately show ?thesis
      using assms res d' by (simp add: sessions_initialized_def)
  qed
qed

lemma stop_wallet_preserves:
  assumes "sessions_initialized d"
  shows "sessions_initialized (snd (stop_wallet x d path0))"
proof -
  have "ran ((wallets d)(p := None)) \<subseteq> ran (wallets d)" for p
    by (auto simp add: ran_def split: if_splits)
  with assms show ?thesis
    by (auto simp add: stop_wallet_def Let_def sessions_initialized_def split: option.splits)
qed

lemma run_sessions_initialized:
  assumes "sessions_initialized d"
  shows "sessions_initialized (run_sessions x d ops)"
  using assms unfolding run_sessions_def
proof (induction ops arbitrary: d)
  case Nil
  then show ?case by simp
next
  case (Cons op ops)
  from Cons.prems have "sessions_initialized (session_step x d op)"
    by (cases op) (simp_all add: load_wallet_preserves stop_wallet_preserves)
  then show ?case
    by (simp add: Cons.IH)
qed

lemma no_sessions_initialized: "wallets d = Map.empty \<Longrightarrow> sessions_initialized d"
  by (simp add: sessions_initialized_def)

text \<open>
  C8. \<^verbatim>\<open>load_wallet\<close> changes the daemon only when every setup step has
  succeeded: the path had no session, the file exists, the store was decrypted with the
  given password if it is encrypted, none of split, upgrade or pending action is required,
  the wallet was constructed and \<^verbatim>\<open>start_network\<close> completed; the insertion into the
  map then follows \<open>StartNetwork\<close> in the trace. In every other outcome (refusal or
  exception) the daemon is unchanged. Hence \<^verbatim>\<open>load_wallet\<close> and \<^verbatim>\<open>stop_wallet\<close> keep
  every session of the map fully initialised, and in every state that the daemon reaches
  from its empty session map by any sequence of open and close operations, every session
  reachable through the map is fully initialised.
\<close>

theorem C8_open_inserts_after_setup:
  assumes "p = standardize_path x path0" and "st = WalletStorage x p"
  shows
    "(load_wallet x d path0 password = (r, d') \<and> d' \<noteq> d
        \<longrightarrow> (\<exists>w0 w. wallets d p = None \<and> file_exists st
              \<and> (if is_encrypted st
                  then \<exists>pw. password = Some pw \<and> pw \<noteq> [] \<and> decrypt x st pw = Inr (storage w0)
                  else storage w0 = st)
              \<and> \<not> requires_split (storage w0) \<and> \<not> requires_upgrade (storage w0)
              \<and> \<not> get_action (storage w0)
              \<and> Wallet x (storage w0) = Inr w0 \<and> start_network x w0 = Inr w
              \<and> r = Inr (Some w)
              \<and> d' = d\<lparr>wallets := (wallets d)(p \<mapsto> w), current_wallet := Some w,
                        trace := trace d @ [StartNetwork p, Inserted p]\<rparr>))
     \<and> (sessions_initialized d
        \<longrightarrow> sessions_initialized (snd (load_wallet x d path0 password)))
     \<and> (sessions_initialized d
        \<longrightarrow> sessions_initialized (snd (stop_wallet x d path0)))
     \<and> (wallets d0 = Map.empty
        \<longrightarrow> sessions_initialized (run_sessions x d0 ops))"
proof (intro conjI impI)
  assume "load_wallet x d path0 password = (r, d') \<and> d' \<noteq> d"
  then have res: "load_wallet x d path0 password = (r, d')" and "d' \<noteq> d"
    by simp_all
  with load_wallet_cases [OF res assms]
  show "\<exists>w0 w. wallets d p = None \<and> file_exists st
              \<and> (if is_encrypted st
                  then \<exists>pw. password = Some pw \<and> pw \<noteq> [] \<and> decrypt x st pw = Inr (storage w0)
                  else storage w0 = st)
              \<and> \<not> requires_split (storage w0) \<and> \<not> requires_upgrade (storage w0)
              \<and> \<not> get_action (storage w0)
              \<and> Wallet x (storage w0) = Inr w0 \<and> start_network x w0 = Inr w
              \<and> r = Inr (Some w)
              \<and> d' = d\<lparr>wallets := (wallets d)(p \<mapsto> w), current_wallet := Some w,
                        trace := trace d @ [StartNetwork p, Inserted p]\<rparr>"
    by blast
next
  assume "sessions_initialized d"
  then show "sessions_initialized (snd (load_wallet x d path0 password))"
    by (rule load_wallet_preserves)
next
  assume "sessions_initialized d"
  then show "sessions_initialized (snd (stop_wallet x d path0))"
    by (rule stop_wallet_preserves)
next
  assume "wallets d0 = Map.empty"
  then have "sessions_initialized d0"
    by (rule no_sessions_initialized)
  then show "sessions_initialized (run_sessions x d0 ops)"
    by (rule run_sessions_initialized)
qed

lemma ex_open_enc:
  "load_wallet ex_ext ex_daemon ''enc'' (Some ''secret'')
   = (Inr (Some ex_wallet),
      ex_daemon\<lparr>wallets := [''/home/u/enc'' \<mapsto> ex_wallet], current_wallet := Some ex_wallet,
                trace := [StartNetwork ''/home/u/enc'', Inserted ''/home/u/enc'']\<rparr>)"
  by (simp add: load_wallet_def Let_def ex_paths ex_ext_fields ex_store_def ex_decrypt_def
      ex_daemon_def Wallet_def start_network_def ex_wallet_def)

text \<open>
  Witness of C8: opening the encrypted file with its password, closing it again, and the
  two in sequence from the empty map.
\<close>

theorem C8_open_inserts_after_setup_witness:
  "sessions_initialized ex_daemon
   \<and> sessions_initialized (snd (load_wallet ex_ext ex_daemon ''enc'' (Some ''secret'')))
   \<and> sessions_initialized
       (snd (stop_wallet ex_ext (ex_daemon\<lparr>wallets := [''/home/u/enc'' \<mapsto> ex_wallet]\<rparr>) ''enc''))
   \<and> (\<exists>w0. Wallet ex_ext (ex_store ''/home/u/enc'') = Inr w0
          \<and> start_network ex_ext w0 = Inr ex_wallet)
   \<and> sessions_initialized
       (run_sessions ex_ext ex_daemon [Open ''enc'' (Some ''secret''), Close ''enc''])"
proof -
  let ?d = "ex_daemon\<lparr>wallets := [''/home/u/enc'' \<mapsto> ex_wallet]\<rparr>"
  let ?d' = "ex_daemon\<lparr>wallets := [''/home/u/enc'' \<mapsto> ex_wallet], current_wallet := Some ex_wallet,
                trace := [StartNetwork ''/home/u/enc'', Inserted ''/home/u/enc'']\<rparr>"
  have i0: "sessions_initialized ex_daemon"
    by (simp add: sessions_initialized_def ex_daemon_def)
  have i1: "sessions_initialized ?d"
    by (simp add: sessions_initialized_def fully_initialized_def ex_wallet_def ex_store_def)
  have ne: "?d' \<noteq> ex_daemon"
    by (simp add: ex_daemon_def)
  have e0: "wallets ex_daemon = Map.empty"
    by (simp add: ex_daemon_def)
  note inst = C8_open_inserts_after_setup [OF refl refl]
  from inst [of ex_ext ex_daemon "''enc''" "Some ''secret''" "Inr (Some ex_wallet)" ?d' ex_daemon
      "[Open ''enc'' (Some ''secret''), Close ''enc'']"] i0
  have a: "sessions_initialized (snd (load_wallet ex_ext ex_daemon ''enc'' (Some ''secret'')))"
    and b: "\<exists>w0. Wallet ex_ext (ex_store ''/home/u/enc'') = Inr w0
          \<and> start_network ex_ext w0 = Inr ex_wallet"
    and r: "sessions_initialized
              (run_sessions ex_ext ex_daemon [Open ''enc'' (Some ''secret''), Close ''enc''])"
    using ne e0 by (auto simp add: ex_open_enc ex_paths ex_ext_fields ex_store_def ex_decrypt_def)
  from inst [of ex_ext ?d "''enc''" None "Inr None" ?d ex_daemon "[]"] i1
  have c: "sessions_initialized (snd (stop_wallet ex_ext ?d ''enc''))"
    by simp
  from i0 a b c r show ?thesis
    by simp
qed


section \<open>Authentication and the HTTP handler\<close>


lemma handle_authenticated:
  assumes "authenticate x d (req_headers req) = (Inr (), d)"
  shows "handle x async_dispatch d req =
     (case async_dispatch (req_text req) (d\<lparr>trace := trace d @ [Dispatch (req_text req)]\<rparr>) of
        (response, d2) \<Rightarrow>
          (Inr (if wanted response
                then json_response (deserialized response) (http_status response)
                else Response [] 200), d2))"
  using assms by (simp add: handle_def split: prod.splits)

lemma handle_forbidden:
  assumes "authenticate x d (req_headers req) = (Inl (AuthenticationError m), d1)"
  shows "handle x async_dispatch d req = (Inr (Response ''Forbidden'' 403), d1)"
  using assms by (simp add: handle_def)

text \<open>
  C10. A configuration that holds a user name and the empty password gives the daemon the
  empty RPC password. With the empty RPC password \<^verbatim>\<open>authenticate\<close> returns normally for
  every header map (it does not read it), and \<^verbatim>\<open>handle\<close> goes on to the JSON-RPC
  dispatch of the request text and answers with what the dispatcher produced.
\<close>

theorem C10_authentication_disabled:
  "(config ''rpcuser'' = Some u \<and> config ''rpcpassword'' = Some []
      \<longrightarrow> get_rpc_credentials fresh config = ((u, []), config))
   \<and> (rpc_password d = []
      \<longrightarrow> authenticate x d headers = (Inr (), d)
          \<and> handle x async_dispatch d req =
              (case async_dispatch (req_text req)
                      (d\<lparr>trace := trace d @ [Dispatch (req_text req)]\<rparr>) of
                 (response, d2) \<Rightarrow>
                   (Inr (if wanted response
                         then json_response (deserialized response) (http_status response)
                         else Response [] 200), d2)))"
proof -
  have auth: "authenticate x d h = (Inr (), d)" if "rpc_password d = []" for h
    using that by (simp add: authenticate_def)
  show ?thesis
    by (auto simp add: get_rpc_credentials_def auth handle_authenticated)
qed

text \<open>
  Witness of C10: a request with no header at all, on a daemon whose password is empty.
\<close>

theorem C10_authentication_disabled_witness:
  "get_rpc_credentials ''cmFuZG9t'' [''rpcuser'' \<mapsto> ''user'', ''rpcpassword'' \<mapsto> []]
     = ((''user'', []), [''rpcuser'' \<mapsto> ''user'', ''rpcpassword'' \<mapsto> []])
   \<and> authenticate ex_ext (ex_daemon\<lparr>rpc_password := []\<rparr>) Map.empty
     = (Inr (), ex_daemon\<lparr>rpc_password := []\<rparr>)
   \<and> handle ex_ext ex_dispatch (ex_daemon\<lparr>rpc_password := []\<rparr>)
        \<lparr>req_headers = Map.empty, req_text = ex_ping\<rparr>
     = (Inr (json_response
               (PDict [(''jsonrpc'', PStr ''2.0''), (''result'', PBool True), (''id'', PInt 1)])
               200),
        ex_daemon\<lparr>rpc_password := [], trace := [Dispatch ex_ping]\<rparr>)"
  using C10_authentication_disabled [of "[''rpcuser'' \<mapsto> ''user'', ''rpcpassword'' \<mapsto> []]"
      "''user''" "''cmFuZG9t''" "ex_daemon\<lparr>rpc_password := []\<rparr>" ex_ext Map.empty ex_dispatch
      "\<lparr>req_headers = Map.empty, req_text = ex_ping\<rparr>"]
  by (simp add: ex_dispatch_def ex_daemon_def)

text \<open>
  C5, as stated, fails when the configured password is empty: a request with no
  \<^verbatim>\<open>Authorization\<close> header is dispatched and answered with status 200.
\<close>

theorem C5_counterexample:
  "handle ex_ext ex_dispatch (ex_daemon\<lparr>rpc_password := []\<rparr>)
     \<lparr>req_headers = Map.empty, req_text = ex_ping\<rparr>
   = (Inr (json_response
             (PDict [(''jsonrpc'', PStr ''2.0''), (''result'', PBool True), (''id'', PInt 1)])
             200),
      ex_daemon\<lparr>rpc_password := [], trace := [Dispatch ex_ping]\<rparr>)"
  by (simp add: handle_def authenticate_def ex_dispatch_def ex_daemon_def)

text \<open>
  C5, amended. When the RPC password is not empty, a request with no \<^verbatim>\<open>Authorization\<close>
  header, with a scheme other than \<^verbatim>\<open>Basic\<close>, or with Basic credentials that decode to
  a user name or password different from the configured pair, is answered
  \<^verbatim>\<open>403 Forbidden\<close>; the dispatcher is not called (the answer does not depend on it and
  the trace has no \<open>Dispatch\<close>). Only the mismatch is delayed, by the fixed 50 ms sleep
  that precedes the answer.
\<close>

theorem C5_forbidden_before_dispatch:
  assumes "rpc_password d \<noteq> []"
  shows
    "(req_headers req ''Authorization'' = None
        \<longrightarrow> handle x async_dispatch d req = (Inr (Response ''Forbidden'' 403), d))
     \<and> (req_headers req ''Authorization'' = Some auth_string
          \<and> fst (str_partition auth_string (CHR '' '')) \<noteq> ''Basic''
        \<longrightarrow> handle x async_dispatch d req = (Inr (Response ''Forbidden'' 403), d))
     \<and> (req_headers req ''Authorization'' = Some auth_string
          \<and> str_partition auth_string (CHR '' '') = (''Basic'', sep, encoded)
          \<and> b64decode_utf8 x encoded = Inr credentials
          \<and> str_partition credentials (CHR '':'') = (username, sep', password)
          \<and> (username \<noteq> rpc_user d \<or> password \<noteq> rpc_password d)
        \<longrightarrow> handle x async_dispatch d req
            = (Inr (Response ''Forbidden'' 403), d\<lparr>trace := trace d @ [Sleep (1 / 20)]\<rparr>))"
proof (intro conjI impI)
  assume "req_headers req ''Authorization'' = None"
  with assms have "authenticate x d (req_headers req)
      = (Inl (AuthenticationError ''CredentialsMissing''), d)"
    by (simp add: authenticate_def)
  then show "handle x async_dispatch d req = (Inr (Response ''Forbidden'' 403), d)"
    by (rule handle_forbidden)
next
  assume "req_headers req ''Authorization'' = Some auth_string
          \<and> fst (str_partition auth_string (CHR '' '')) \<noteq> ''Basic''"
  with assms have "authenticate x d (req_headers req)
      = (Inl (AuthenticationError ''UnsupportedType''), d)"
    by (auto simp add: authenticate_def split: prod.splits)
  then show "handle x async_dispatch d req = (Inr (Response ''Forbidden'' 403), d)"
    by (rule handle_forbidden)
next
  assume "req_headers req ''Authorization'' = Some auth_string
          \<and> str_partition auth_string (CHR '' '') = (''Basic'', sep, encoded)
          \<and> b64decode_utf8 x encoded = Inr credentials
          \<and> str_partition credentials (CHR '':'') = (username, sep', password)
          \<and> (username \<noteq> rpc_user d \<or> password \<noteq> rpc_password d)"
  with assms have "authenticate x d (req_headers req)
      = (Inl (AuthenticationError ''Invalid Credentials''), d\<lparr>trace := trace d @ [Sleep (1 / 20)]\<rparr>)"
    by (auto simp add: authenticate_def constant_time_compare_def)
  then show "handle x async_dispatch d req
      = (Inr (Response ''Forbidden'' 403), d\<lparr>trace := trace d @ [Sleep (1 / 20)]\<rparr>)"
    by (rule handle_forbidden)
qed

lemma partition_examples:
  "str_partition ''Bearer abc'' (CHR '' '') = (''Bearer'', '' '', ''abc'')"
  "str_partition ''Basic dXNlcjpiYWQ='' (CHR '' '') = (''Basic'', '' '', ''dXNlcjpiYWQ='')"
  "str_partition ''user:bad'' (CHR '':'') = (''user'', '':'', ''bad'')"
  by (simp_all add: str_partition_def)

text \<open>
  Witness of C5: no header, a \<^verbatim>\<open>Bearer\<close> header, and the Basic encoding of
  \<^verbatim>\<open>user:bad\<close> against the pair \<^verbatim>\<open>user\<close>/\<^verbatim>\<open>pw\<close>.
\<close>

theorem C5_forbidden_before_dispatch_witness:
  "handle ex_ext ex_dispatch ex_daemon \<lparr>req_headers = Map.empty, req_text = ex_ping\<rparr>
     = (Inr (Response ''Forbidden'' 403), ex_daemon)
   \<and> handle ex_ext ex_dispatch ex_daemon
        \<lparr>req_headers = [''Authorization'' \<mapsto> ''Bearer abc''], req_text = ex_ping\<rparr>
     = (Inr (Response ''Forbidden'' 403), ex_daemon)
   \<and> handle ex_ext ex_dispatch ex_daemon
        \<lparr>req_headers = [''Authorization'' \<mapsto> ''Basic dXNlcjpiYWQ=''], req_text = ex_ping\<rparr>
     = (Inr (Response ''Forbidden'' 403), ex_daemon\<lparr>trace := [Sleep (1 / 20)]\<rparr>)"
proof -
  have pw: "rpc_password ex_daemon \<noteq> []" "rpc_user ex_daemon = ''user''"
    "rpc_password ex_daemon = ''pw''" "trace ex_daemon = []"
    by (simp_all add: ex_daemon_def)
  have dec: "b64decode_utf8 ex_ext ''dXNlcjpiYWQ='' = Inr ''user:bad''"
    by (simp add: ex_ext_def ex_b64_def)
  from C5_forbidden_before_dispatch [OF pw(1),
      of "\<lparr>req_headers = Map.empty, req_text = ex_ping\<rparr>" ex_ext ex_dispatch]
  have a: "handle ex_ext ex_dispatch ex_daemon \<lparr>req_headers = Map.empty, req_text = ex_ping\<rparr>
     = (Inr (Response ''Forbidden'' 403), ex_daemon)"
    by simp
  from C5_forbidden_before_dispatch [OF pw(1),
      of "\<lparr>req_headers = [''Authorization'' \<mapsto> ''Bearer abc''], req_text = ex_ping\<rparr>"
         ex_ext ex_dispatch "''Bearer abc''"]
  have b: "handle ex_ext ex_dispatch ex_daemon
        \<lparr>req_headers = [''Authorization'' \<mapsto> ''Bearer abc''], req_text = ex_ping\<rparr>
     = (Inr (Response ''Forbidden'' 403), ex_daemon)"
    by (simp add: partition_examples)
  from C5_forbidden_before_dispatch [OF pw(1),
      of "\<lparr>req_headers = [''Authorization'' \<mapsto> ''Basic dXNlcjpiYWQ=''], req_text = ex_ping\<rparr>"
         ex_ext ex_dispatch "''Basic dXNlcjpiYWQ=''" "'' ''" "''dXNlcjpiYWQ=''" "''user:bad''"
         "''user''" "'':''" "''bad''"]
  have c: "handle ex_ext ex_dispatch ex_daemon
        \<lparr>req_headers = [''Authorization'' \<mapsto> ''Basic dXNlcjpiYWQ=''], req_text = ex_ping\<rparr>
     = (Inr (Response ''Forbidden'' 403), ex_daemon\<lparr>trace := [Sleep (1 / 20)]\<rparr>)"
    by (simp add: partition_examples dec pw)
  from a b c show ?thesis
    by simp
qed


section \<open>The instance lock\<close>

text \<open>
  One round of \<^verbatim>\<open>request\<close>: a missing or unparsable lock file raises
  \<^verbatim>\<open>DaemonNotRunning\<close>; an answer is returned; a failure of the probe other than a
  refused connection is raised as it is; a refused connection raises
  \<^verbatim>\<open>DaemonNotRunning\<close> when the recorded creation time is falsy or more than one second
  old, and otherwise sleeps one second and goes round again.
\<close>

lemma request_no_daemon:
  "lockfile s = None \<or> lockfile s = Some Unparsable
   \<Longrightarrow> request (Suc n) rpc endpoint s = Some (Inl DaemonNotRunning, s)"
  by auto

lemma request_answered:
  "lockfile s = Some (Entry host (Port port) create_time)
   \<Longrightarrow> rpc host port endpoint (clock s) = Result v
   \<Longrightarrow> request (Suc n) rpc endpoint s = Some (Inr v, s\<lparr>oslog := oslog s @ [Connected host port]\<rparr>)"
  by (simp add: Let_def)

lemma request_failed:
  "lockfile s = Some (Entry host (Port port) create_time)
   \<Longrightarrow> rpc host port endpoint (clock s) = Failure e
   \<Longrightarrow> request (Suc n) rpc endpoint s = Some (Inl e, s\<lparr>oslog := oslog s @ [Connected host port]\<rparr>)"
  by (simp add: Let_def)

lemma request_stale:
  "lockfile s = Some (Entry host (Port port) (Time t))
   \<Longrightarrow> rpc host port endpoint (clock s) = ClientConnectorError
   \<Longrightarrow> t = 0 \<or> t < clock s - 1
   \<Longrightarrow> request (Suc n) rpc endpoint s
       = Some (Inl DaemonNotRunning, s\<lparr>oslog := oslog s @ [Connected host port]\<rparr>)"
  by (auto simp add: Let_def)

lemma request_falsy_time:
  "lockfile s = Some (Entry host (Port port) FalsyTime)
   \<Longrightarrow> rpc host port endpoint (clock s) = ClientConnectorError
   \<Longrightarrow> request (Suc n) rpc endpoint s
       = Some (Inl DaemonNotRunning, s\<lparr>oslog := oslog s @ [Connected host port]\<rparr>)"
  by (simp add: Let_def)

lemma request_young:
  "lockfile s = Some (Entry host (Port port) (Time t))
   \<Longrightarrow> rpc host port endpoint (clock s) = ClientConnectorError
   \<Longrightarrow> t \<noteq> 0 \<Longrightarrow> clock s - 1 \<le> t
   \<Longrightarrow> request (Suc n) rpc endpoint s
       = request n rpc endpoint
           (s\<lparr>clock := clock s + 1, oslog := oslog s @ [Connected host port, Slept 1]\<rparr>)"
  by (auto simp add: Let_def)

text \<open>
  Content that evaluates to the recorded shape with a port that is not a number, or with
  a truthy creation time that is not a number, is not caught by the handler around the
  parse: \<^verbatim>\<open>request\<close> raises \<^verbatim>\<open>TypeError\<close>.
\<close>

lemma request_bad_port:
  "lockfile s = Some (Entry host BadPort create_time)
   \<Longrightarrow> request (Suc n) rpc endpoint s
       = Some (Inl (TypeError ''%d format: a number is required''), s)"
  by simp

lemma request_bad_time:
  "lockfile s = Some (Entry host (Port port) BadTime)
   \<Longrightarrow> rpc host port endpoint (clock s) = ClientConnectorError
   \<Longrightarrow> request (Suc n) rpc endpoint s
       = Some (Inl (TypeError ''< not supported between these types''),
               s\<lparr>oslog := oslog s @ [Connected host port]\<rparr>)"
  by (simp add: Let_def)

lemma create_succeeds:
  "lockfile s = None
   \<Longrightarrow> get_file_descriptor (Suc n) rpc s
       = Some (Inr (Some LockFd), s\<lparr>lockfile := Some Unparsable, oslog := oslog s @ [Created]\<rparr>)"
  by simp

text \<open>
  How \<^verbatim>\<open>get_file_descriptor\<close> goes on from what \<^verbatim>\<open>request\<close> gave, when the lock file
  exists.
\<close>

lemma locked_defers:
  assumes "lockfile s = Some c"
    and "request (Suc n) rpc ''ping'' (s\<lparr>oslog := oslog s @ [CreateFailed]\<rparr>) = Some (Inr v, s')"
  shows "get_file_descriptor (Suc (Suc n)) rpc s = Some (Inr None, s')"
  using assms by (simp del: request.simps)

lemma locked_raises:
  assumes "lockfile s = Some c"
    and "request (Suc n) rpc ''ping'' (s\<lparr>oslog := oslog s @ [CreateFailed]\<rparr>) = Some (Inl e, s')"
    and "e \<noteq> DaemonNotRunning"
  shows "get_file_descriptor (Suc (Suc n)) rpc s = Some (Inl e, s')"
  using assms by (cases e) (simp_all del: request.simps)

lemma locked_evicts:
  assumes "lockfile s = Some c"
    and "request (Suc n) rpc ''ping'' (s\<lparr>oslog := oslog s @ [CreateFailed]\<rparr>)
         = Some (Inl DaemonNotRunning, s')"
  shows "get_file_descriptor (Suc (Suc n)) rpc s
         = Some (Inr (Some LockFd),
                 s'\<lparr>lockfile := Some Unparsable, oslog := oslog s' @ [Unlinked, Created]\<rparr>)"
proof -
  have "get_file_descriptor (Suc n) rpc (remove_lockfile s')
        = Some (Inr (Some LockFd),
                s'\<lparr>lockfile := Some Unparsable, oslog := oslog s' @ [Unlinked, Created]\<rparr>)"
    by (simp add: remove_lockfile_def)
  with assms show ?thesis
    by (simp del: request.simps get_file_descriptor.simps
        add: get_file_descriptor.simps(2) [of "Suc n" rpc s])
qed

text \<open>
  Both loops return: however young the lock file is, each second of sleep brings it nearer
  the end of its grace period, so some bound on the iterations is enough.
\<close>

lemma request_returns_aux:
  "lockfile s = Some (Entry host (Port port) (Time t)) \<Longrightarrow> t - clock s + 1 < of_nat k
   \<Longrightarrow> request (Suc k) rpc endpoint s \<noteq> None"
proof (induction k arbitrary: s)
  case 0
  then have "t < clock s - 1"
    by simp
  with 0 show ?case
    by (cases "rpc host port endpoint (clock s)") (simp_all add: Let_def)
next
  case (Suc k)
  let ?s' = "s\<lparr>oslog := oslog s @ [Connected host port], clock := clock s + 1,
               oslog := oslog s @ [Connected host port] @ [Slept 1]\<rparr>"
  from Suc.prems have "request (Suc k) rpc endpoint ?s' \<noteq> None"
    by (intro Suc.IH) simp_all
  with Suc.prems show ?case
    by (cases "rpc host port endpoint (clock s)") (simp_all add: Let_def)
qed

lemma request_returns: "\<exists>n. request (Suc n) rpc endpoint s \<noteq> None"
proof (cases "lockfile s")
  case None
  then show ?thesis by simp
next
  case (Some c)
  show ?thesis
  proof (cases c)
    case Unparsable
    with Some show ?thesis by simp
  next
    case (Entry host p ct)
    show ?thesis
    proof (cases p)
      case BadPort
      with Some Entry show ?thesis by simp
    next
      case (Port port)
      show ?thesis
      proof (cases ct)
        case (Time t)
        obtain k :: nat where "t - clock s + 1 < of_nat k"
          using reals_Archimedean2 by blast
        with Some Entry Port Time have "request (Suc k) rpc endpoint s \<noteq> None"
          by (intro request_returns_aux) simp_all
        then show ?thesis ..
      next
        case FalsyTime
        with Some Entry Port have "request (Suc 0) rpc endpoint s \<noteq> None"
          by (cases "rpc host port endpoint (clock s)") (simp_all add: Let_def)
        then show ?thesis ..
      next
        case BadTime
        with Some Entry Port have "request (Suc 0) rpc endpoint s \<noteq> None"
          by (cases "rpc host port endpoint (clock s)") (simp_all add: Let_def)
        then show ?thesis ..
      qed
    qed
  qed
qed

lemma get_file_descriptor_returns: "\<exists>n. get_file_descriptor n rpc s \<noteq> None"
proof (cases "lockfile s")
  case None
  then have "get_file_descriptor (Suc 0) rpc s \<noteq> None"
    by simp
  then show ?thesis ..
next
  case (Some c)
  let ?s = "s\<lparr>oslog := oslog s @ [CreateFailed]\<rparr>"
  obtain n r s' where req: "request (Suc n) rpc ''ping'' ?s = Some (r, s')"
    using request_returns [of rpc "''ping''" ?s] by auto
  have "get_file_descriptor (Suc (Suc n)) rpc s \<noteq> None"
  proof (cases r)
    case (Inr v)
    with req locked_defers [OF Some, of n rpc v s'] show ?thesis
      by (simp del: request.simps get_file_descriptor.simps)
  next
    case (Inl e)
    show ?thesis
    proof (cases "e = DaemonNotRunning")
      case True
      with req Inl locked_evicts [OF Some, of n rpc s'] show ?thesis
        by (simp del: request.simps get_file_descriptor.simps)
    next
      case False
      with req Inl locked_raises [OF Some, of n rpc e s'] show ?thesis
        by (simp del: request.simps get_file_descriptor.simps)
    qed
  qed
  then show ?thesis ..
qed

text \<open>
  C4, as stated, fails when the probe fails otherwise than by a refused connection. The
  lock file is ten seconds old and the daemon recorded in it lets the ping time out:
  \<^verbatim>\<open>get_file_descriptor\<close> raises the timeout; the lock is not removed and the exclusive
  create is not retried.
\<close>

theorem C4_counterexample:
  "get_file_descriptor (Suc (Suc 0)) ex_rpc_hung
     (ex_os (Some (Entry ''127.0.0.1'' (Port 7777) (Time 990))))
   = Some (Inl (ExternalError ''TimeoutError''),
           \<lparr>lockfile = Some (Entry ''127.0.0.1'' (Port 7777) (Time 990)), clock = 1000,
            oslog = [CreateFailed, Connected ''127.0.0.1'' 7777]\<rparr>)"
  by (simp add: ex_os_def ex_rpc_hung_def)

text \<open>
  C4, amended. With enough iterations allowed, \<^verbatim>\<open>get_file_descriptor\<close> returns as
  follows. If the lock file does not exist, the exclusive create succeeds and the
  descriptor is returned. If it exists and the daemon recorded in it answers the ping,
  \<^verbatim>\<open>None\<close> is returned and the lock is left alone. If the connection is refused and the
  recorded creation time is zero or more than one second old, the lock is unlinked and the
  exclusive create is retried, which succeeds. If the connection is refused and the
  creation time is within the last second, \<^verbatim>\<open>request\<close> keeps the lock, sleeps one second
  and probes again: a daemon that answers by then is deferred to, and a connection refused
  again, with the lock now older than a second, leads to the unlink and the new create.
  Any other failure of the probe is raised to the caller and the lock is kept. If the
  content of the lock file does not parse, \<^verbatim>\<open>request\<close> raises \<^verbatim>\<open>DaemonNotRunning\<close> (no
  running daemon), and the lock is unlinked and created anew.
\<close>

theorem C4_instance_lock:
  "(lockfile s = None
      \<longrightarrow> get_file_descriptor (Suc n) rpc s
          = Some (Inr (Some LockFd),
                  s\<lparr>lockfile := Some Unparsable, oslog := oslog s @ [Created]\<rparr>))
   \<and> (lockfile s = Some (Entry host (Port port) create_time)
        \<and> rpc host port ''ping'' (clock s) = Result v
      \<longrightarrow> get_file_descriptor (Suc (Suc n)) rpc s
          = Some (Inr None, s\<lparr>oslog := oslog s @ [CreateFailed, Connected host port]\<rparr>))
   \<and> (lockfile s = Some (Entry host (Port port) (Time t))
        \<and> rpc host port ''ping'' (clock s) = ClientConnectorError
        \<and> (t = 0 \<or> t < clock s - 1)
      \<longrightarrow> get_file_descriptor (Suc (Suc n)) rpc s
          = Some (Inr (Some LockFd),
                  s\<lparr>lockfile := Some Unparsable,
                    oslog := oslog s @ [CreateFailed, Connected host port, Unlinked, Created]\<rparr>))
   \<and> (lockfile s = Some (Entry host (Port port) (Time t))
        \<and> rpc host port endpoint (clock s) = ClientConnectorError
        \<and> t \<noteq> 0 \<and> clock s - 1 \<le> t
      \<longrightarrow> request (Suc n) rpc endpoint s
          = request n rpc endpoint
              (s\<lparr>clock := clock s + 1, oslog := oslog s @ [Connected host port, Slept 1]\<rparr>))
   \<and> (lockfile s = Some (Entry host (Port port) (Time t))
        \<and> rpc host port ''ping'' (clock s) = ClientConnectorError
        \<and> t \<noteq> 0 \<and> clock s - 1 \<le> t
        \<and> rpc host port ''ping'' (clock s + 1) = Result v
      \<longrightarrow> get_file_descriptor (Suc (Suc (Suc n))) rpc s
          = Some (Inr None,
                  s\<lparr>clock := clock s + 1,
                    oslog := oslog s @ [CreateFailed, Connected host port, Slept 1,
                                        Connected host port]\<rparr>))
   \<and> (lockfile s = Some (Entry host (Port port) (Time t))
        \<and> rpc host port ''ping'' (clock s) = ClientConnectorError
        \<and> t \<noteq> 0 \<and> clock s - 1 \<le> t \<and> t < clock s
        \<and> rpc host port ''ping'' (clock s + 1) = ClientConnectorError
      \<longrightarrow> get_file_descriptor (Suc (Suc (Suc n))) rpc s
          = Some (Inr (Some LockFd),
                  s\<lparr>lockfile := Some Unparsable, clock := clock s + 1,
                    oslog := oslog s @ [CreateFailed, Connected host port, Slept 1,
                                        Connected host port, Unlinked, Created]\<rparr>))
   \<and> (lockfile s = Some (Entry host (Port port) create_time)
        \<and> rpc host port ''ping'' (clock s) = Failure e \<and> e \<noteq> DaemonNotRunning
      \<longrightarrow> get_file_descriptor (Suc (Suc n)) rpc s
          = Some (Inl e, s\<lparr>oslog := oslog s @ [CreateFailed, Connected host port]\<rparr>))
   \<and> (lockfile s = Some Unparsable
      \<longrightarrow> request (Suc n) rpc ''ping'' s = Some (Inl DaemonNotRunning, s)
          \<and> get_file_descriptor (Suc (Suc n)) rpc s
            = Some (Inr (Some LockFd),
                    s\<lparr>lockfile := Some Unparsable,
                      oslog := oslog s @ [CreateFailed, Unlinked, Created]\<rparr>))"
proof (intro conjI impI)
  assume "lockfile s = None"
  then show "get_file_descriptor (Suc n) rpc s
      = Some (Inr (Some LockFd), s\<lparr>lockfile := Some Unparsable, oslog := oslog s @ [Created]\<rparr>)"
    by (rule create_succeeds)
next
  assume a: "lockfile s = Some (Entry host (Port port) create_time)
        \<and> rpc host port ''ping'' (clock s) = Result v"
  let ?s = "s\<lparr>oslog := oslog s @ [CreateFailed]\<rparr>"
  from a have "request (Suc n) rpc ''ping'' ?s
      = Some (Inr v, ?s\<lparr>oslog := oslog ?s @ [Connected host port]\<rparr>)"
    by (intro request_answered) auto
  with a locked_defers [of s _ n rpc v]
  show "get_file_descriptor (Suc (Suc n)) rpc s
      = Some (Inr None, s\<lparr>oslog := oslog s @ [CreateFailed, Connected host port]\<rparr>)"
    by (simp del: request.simps get_file_descriptor.simps)
next
  assume a: "lockfile s = Some (Entry host (Port port) (Time t))
        \<and> rpc host port ''ping'' (clock s) = ClientConnectorError
        \<and> (t = 0 \<or> t < clock s - 1)"
  let ?s = "s\<lparr>oslog := oslog s @ [CreateFailed]\<rparr>"
  from a have "request (Suc n) rpc ''ping'' ?s
      = Some (Inl DaemonNotRunning, ?s\<lparr>oslog := oslog ?s @ [Connected host port]\<rparr>)"
    by (intro request_stale) auto
  with a locked_evicts [of s _ n rpc]
  show "get_file_descriptor (Suc (Suc n)) rpc s
      = Some (Inr (Some LockFd),
              s\<lparr>lockfile := Some Unparsable,
                oslog := oslog s @ [CreateFailed, Connected host port, Unlinked, Created]\<rparr>)"
    by (simp del: request.simps get_file_descriptor.simps)
next
  assume "lockfile s = Some (Entry host (Port port) (Time t))
        \<and> rpc host port endpoint (clock s) = ClientConnectorError
        \<and> t \<noteq> 0 \<and> clock s - 1 \<le> t"
  then show "request (Suc n) rpc endpoint s
      = request n rpc endpoint
          (s\<lparr>clock := clock s + 1, oslog := oslog s @ [Connected host port, Slept 1]\<rparr>)"
    by (intro request_young) auto
next
  assume a: "lockfile s = Some (Entry host (Port port) (Time t))
        \<and> rpc host port ''ping'' (clock s) = ClientConnectorError
        \<and> t \<noteq> 0 \<and> clock s - 1 \<le> t
        \<and> rpc host port ''ping'' (clock s + 1) = Result v"
  let ?s = "s\<lparr>oslog := oslog s @ [CreateFailed]\<rparr>"
  let ?s1 = "?s\<lparr>clock := clock ?s + 1, oslog := oslog ?s @ [Connected host port, Slept 1]\<rparr>"
  from a have "request (Suc (Suc n)) rpc ''ping'' ?s = request (Suc n) rpc ''ping'' ?s1"
    by (intro request_young) auto
  moreover from a have "request (Suc n) rpc ''ping'' ?s1
      = Some (Inr v, ?s1\<lparr>oslog := oslog ?s1 @ [Connected host port]\<rparr>)"
    by (intro request_answered) auto
  ultimately have "request (Suc (Suc n)) rpc ''ping'' ?s
      = Some (Inr v, ?s1\<lparr>oslog := oslog ?s1 @ [Connected host port]\<rparr>)"
    by (simp del: request.simps)
  with a locked_defers [of s _ "Suc n" rpc v]
  show "get_file_descriptor (Suc (Suc (Suc n))) rpc s
      = Some (Inr None,
              s\<lparr>clock := clock s + 1,
                oslog := oslog s @ [CreateFailed, Connected host port, Slept 1,
                                    Connected host port]\<rparr>)"
    by (simp del: request.simps get_file_descriptor.simps)
next
  assume a: "lockfile s = Some (Entry host (Port port) (Time t))
        \<and> rpc host port ''ping'' (clock s) = ClientConnectorError
        \<and> t \<noteq> 0 \<and> clock s - 1 \<le> t \<and> t < clock s
        \<and> rpc host port ''ping'' (clock s + 1) = ClientConnectorError"
  let ?s = "s\<lparr>oslog := oslog s @ [CreateFailed]\<rparr>"
  let ?s1 = "?s\<lparr>clock := clock ?s + 1, oslog := oslog ?s @ [Connected host port, Slept 1]\<rparr>"
  from a have "request (Suc (Suc n)) rpc ''ping'' ?s = request (Suc n) rpc ''ping'' ?s1"
    by (intro request_young) auto
  moreover from a have "request (Suc n) rpc ''ping'' ?s1
      = Some (Inl DaemonNotRunning, ?s1\<lparr>oslog := oslog ?s1 @ [Connected host port]\<rparr>)"
    by (intro request_stale) auto
  ultimately have "request (Suc (Suc n)) rpc ''ping'' ?s
      = Some (Inl DaemonNotRunning, ?s1\<lparr>oslog := oslog ?s1 @ [Connected host port]\<rparr>)"
    by (simp del: request.simps)
  with a locked_evicts [of s _ "Suc n" rpc]
  show "get_file_descriptor (Suc (Suc (Suc n))) rpc s
      = Some (Inr (Some LockFd),
              s\<lparr>lockfile := Some Unparsable, clock := clock s + 1,
                oslog := oslog s @ [CreateFailed, Connected host port, Slept 1,
                                    Connected host port, Unlinked, Created]\<rparr>)"
    by (simp del: request.simps get_file_descriptor.simps)
next
  assume a: "lockfile s = Some (Entry host (Port port) create_time)
        \<and> rpc host port ''ping'' (clock s) = Failure e \<and> e \<noteq> DaemonNotRunning"
  let ?s = "s\<lparr>oslog := oslog s @ [CreateFailed]\<rparr>"
  from a have "request (Suc n) rpc ''ping'' ?s
      = Some (Inl e, ?s\<lparr>oslog := oslog ?s @ [Connected host port]\<rparr>)"
    by (intro request_failed) auto
  with a locked_raises [of s _ n rpc e]
  show "get_file_descriptor (Suc (Suc n)) rpc s
      = Some (Inl e, s\<lparr>oslog := oslog s @ [CreateFailed, Connected host port]\<rparr>)"
    by (simp del: request.simps get_file_descriptor.simps)
next
  assume "lockfile s = Some Unparsable"
  then show "request (Suc n) rpc ''ping'' s = Some (Inl DaemonNotRunning, s)"
    by (simp add: request_no_daemon)
next
  assume a: "lockfile s = Some Unparsable"
  let ?s = "s\<lparr>oslog := oslog s @ [CreateFailed]\<rparr>"
  from a have "request (Suc n) rpc ''ping'' ?s = Some (Inl DaemonNotRunning, ?s)"
    by (intro request_no_daemon) simp
  with a locked_evicts [of s _ n rpc]
  show "get_file_descriptor (Suc (Suc n)) rpc s
      = Some (Inr (Some LockFd),
              s\<lparr>lockfile := Some Unparsable,
                oslog := oslog s @ [CreateFailed, Unlinked, Created]\<rparr>)"
    by (simp del: request.simps get_file_descriptor.simps)
qed

text \<open>
  Witness of C4: no lock file; a live daemon; a dead daemon with a lock ten seconds old;
  a lock half a second old whose daemon answers one second later; the same lock with no
  daemon; an old lock whose daemon times out; a lock file that does not parse.
\<close>

theorem C4_instance_lock_witness:
  "get_file_descriptor (Suc (Suc 0)) ex_rpc_dead (ex_os None)
     = Some (Inr (Some LockFd), \<lparr>lockfile = Some Unparsable, clock = 1000, oslog = [Created]\<rparr>)
   \<and> get_file_descriptor (Suc (Suc 0)) ex_rpc_alive
       (ex_os (Some (Entry ''127.0.0.1'' (Port 7777) (Time 990))))
     = Some (Inr None,
             \<lparr>lockfile = Some (Entry ''127.0.0.1'' (Port 7777) (Time 990)), clock = 1000,
              oslog = [CreateFailed, Connected ''127.0.0.1'' 7777]\<rparr>)
   \<and> get_file_descriptor (Suc (Suc 0)) ex_rpc_dead
       (ex_os (Some (Entry ''127.0.0.1'' (Port 7777) (Time 990))))
     = Some (Inr (Some LockFd),
             \<lparr>lockfile = Some Unparsable, clock = 1000,
              oslog = [CreateFailed, Connected ''127.0.0.1'' 7777, Unlinked, Created]\<rparr>)
   \<and> get_file_descriptor (Suc (Suc (Suc 0))) ex_rpc_starting
       (ex_os (Some (Entry ''127.0.0.1'' (Port 7777) (Time (1999 / 2)))))
     = Some (Inr None,
             \<lparr>lockfile = Some (Entry ''127.0.0.1'' (Port 7777) (Time (1999 / 2))), clock = 1001,
              oslog = [CreateFailed, Connected ''127.0.0.1'' 7777, Slept 1,
                       Connected ''127.0.0.1'' 7777]\<rparr>)
   \<and> get_file_descriptor (Suc (Suc (Suc 0))) ex_rpc_dead
       (ex_os (Some (Entry ''127.0.0.1'' (Port 7777) (Time (1999 / 2)))))
     = Some (Inr (Some LockFd),
             \<lparr>lockfile = Some Unparsable, clock = 1001,
              oslog = [CreateFailed, Connected ''127.0.0.1'' 7777, Slept 1,
                       Connected ''127.0.0.1'' 7777, Unlinked, Created]\<rparr>)
   \<and> get_file_descriptor (Suc (Suc 0)) ex_rpc_hung
       (ex_os (Some (Entry ''127.0.0.1'' (Port 7777) (Time 990))))
     = Some (Inl (ExternalError ''TimeoutError''),
             \<lparr>lockfile = Some (Entry ''127.0.0.1'' (Port 7777) (Time 990)), clock = 1000,
              oslog = [CreateFailed, Connected ''127.0.0.1'' 7777]\<rparr>)
   \<and> get_file_descriptor (Suc (Suc 0)) ex_rpc_dead (ex_os (Some Unparsable))
     = Some (Inr (Some LockFd),
             \<lparr>lockfile = Some Unparsable, clock = 1000,
              oslog = [CreateFailed, Unlinked, Created]\<rparr>)"
proof -
  let ?old = "Entry ''127.0.0.1'' (Port 7777) (Time 990)"
  let ?young = "Entry ''127.0.0.1'' (Port 7777) (Time (1999 / 2))"
  from C4_instance_lock [where s = "ex_os None" and n = "Suc 0" and rpc = ex_rpc_dead]
  have a: "get_file_descriptor (Suc (Suc 0)) ex_rpc_dead (ex_os None)
     = Some (Inr (Some LockFd), \<lparr>lockfile = Some Unparsable, clock = 1000, oslog = [Created]\<rparr>)"
    by (simp add: ex_os_def del: get_file_descriptor.simps request.simps)
  from C4_instance_lock [where s = "ex_os (Some ?old)" and n = 0 and rpc = ex_rpc_alive
      and host = "''127.0.0.1''" and port = 7777 and create_time = "Time 990"
      and v = "PBool True"]
  have b: "get_file_descriptor (Suc (Suc 0)) ex_rpc_alive (ex_os (Some ?old))
     = Some (Inr None,
             \<lparr>lockfile = Some ?old, clock = 1000,
              oslog = [CreateFailed, Connected ''127.0.0.1'' 7777]\<rparr>)"
    by (simp add: ex_os_def ex_rpc_alive_def del: get_file_descriptor.simps request.simps)
  from C4_instance_lock [where s = "ex_os (Some ?old)" and n = 0 and rpc = ex_rpc_dead
      and host = "''127.0.0.1''" and port = 7777 and t = 990]
  have c: "get_file_descriptor (Suc (Suc 0)) ex_rpc_dead (ex_os (Some ?old))
     = Some (Inr (Some LockFd),
             \<lparr>lockfile = Some Unparsable, clock = 1000,
              oslog = [CreateFailed, Connected ''127.0.0.1'' 7777, Unlinked, Created]\<rparr>)"
    by (simp add: ex_os_def ex_rpc_dead_def del: get_file_descriptor.simps request.simps)
  from C4_instance_lock [where s = "ex_os (Some ?young)" and n = 0 and rpc = ex_rpc_starting
      and host = "''127.0.0.1''" and port = 7777 and t = "1999 / 2" and v = "PBool True"]
  have d: "get_file_descriptor (Suc (Suc (Suc 0))) ex_rpc_starting (ex_os (Some ?young))
     = Some (Inr None,
             \<lparr>lockfile = Some ?young, clock = 1001,
              oslog = [CreateFailed, Connected ''127.0.0.1'' 7777, Slept 1,
                       Connected ''127.0.0.1'' 7777]\<rparr>)"
    by (simp add: ex_os_def ex_rpc_starting_def del: get_file_descriptor.simps request.simps)
  from C4_instance_lock [where s = "ex_os (Some ?young)" and n = 0 and rpc = ex_rpc_dead
      and host = "''127.0.0.1''" and port = 7777 and t = "1999 / 2"]
  have e: "get_file_descriptor (Suc (Suc (Suc 0))) ex_rpc_dead (ex_os (Some ?young))
     = Some (Inr (Some LockFd),
             \<lparr>lockfile = Some Unparsable, clock = 1001,
              oslog = [CreateFailed, Connected ''127.0.0.1'' 7777, Slept 1,
                       Connected ''127.0.0.1'' 7777, Unlinked, Created]\<rparr>)"
    by (simp add: ex_os_def ex_rpc_dead_def del: get_file_descriptor.simps request.simps)
  from C4_instance_lock [where s = "ex_os (Some ?old)" and n = 0 and rpc = ex_rpc_hung
      and host = "''127.0.0.1''" and port = 7777 and create_time = "Time 990"
      and e = "ExternalError ''TimeoutError''"]
  have f: "get_file_descriptor (Suc (Suc 0)) ex_rpc_hung (ex_os (Some ?old))
     = Some (Inl (ExternalError ''TimeoutError''),
             \<lparr>lockfile = Some ?old, clock = 1000,
              oslog = [CreateFailed, Connected ''127.0.0.1'' 7777]\<rparr>)"
    by (simp add: ex_os_def ex_rpc_hung_def del: get_file_descriptor.simps request.simps)
  from C4_instance_lock [where s = "ex_os (Some Unparsable)" and n = 0 and rpc = ex_rpc_dead]
  have g: "get_file_descriptor (Suc (Suc 0)) ex_rpc_dead (ex_os (Some Unparsable))
     = Some (Inr (Some LockFd),
             \<lparr>lockfile = Some Unparsable, clock = 1000,
              oslog = [CreateFailed, Unlinked, Created]\<rparr>)"
    by (simp add: ex_os_def del: get_file_descriptor.simps request.simps)
  from a b c d e f g show ?thesis
    by (simp del: get_file_descriptor.simps request.simps)
qed

end
